theory Spec2Isabelle
  imports Complex_Main "HOL-Library.Sublist" "HOL-Library.AList"
begin

section \<open>The Gmail triage classifier of accounts/work-uaa/scripts/gmail-triage/Code.js\<close>

text \<open>
  The development embeds the class \<^verbatim>\<open>EmailClassifier\<close>, the configuration object
  \<^verbatim>\<open>CONFIG\<close> and the per-thread body of \<^verbatim>\<open>processInbox\<close>.

  Conventions of the embedding.
  \<^item> A JavaScript string is a \<^typ>\<open>string\<close>; \<^verbatim>\<open>toLowerCase\<close> maps the letters A to Z to
    a to z and leaves every other character alone (the ASCII part of the Unicode mapping).
  \<^item> A JavaScript number is a \<^typ>\<open>real\<close>: arithmetic is exact, and NaN and the infinities
    are not values of the model.
  \<^item> A JavaScript object used as a dictionary is an association list of its own
    properties in creation order, with distinct keys.
  \<^item> \<^verbatim>\<open>null\<close> and a missing field are \<^term>\<open>None\<close>; a \<^verbatim>\<open>TypeError\<close> raised by reading a
    property of \<^verbatim>\<open>undefined\<close> is the value \<^verbatim>\<open>Inl TypeError\<close>.
\<close>

subsection \<open>Strings\<close>

definition toLowerCaseChar :: "char \<Rightarrow> char" where
  "toLowerCaseChar c =
     (case map_of (zip ''ABCDEFGHIJKLMNOPQRSTUVWXYZ'' ''abcdefghijklmnopqrstuvwxyz'') c of
        Some l \<Rightarrow> l
      | None \<Rightarrow> c)"

definition toLowerCase :: "string \<Rightarrow> string" where
  "toLowerCase s = map toLowerCaseChar s"

text \<open>\<^verbatim>\<open>s.endsWith(t)\<close>, \<^verbatim>\<open>s.includes(t)\<close> and \<^verbatim>\<open>s.substring(0, n)\<close>.\<close>

definition endsWith :: "string \<Rightarrow> string \<Rightarrow> bool" where
  "endsWith s searchString = suffix searchString s"

definition includesStr :: "string \<Rightarrow> string \<Rightarrow> bool" where
  "includesStr s searchString = sublist searchString s"

definition substring0 :: "string \<Rightarrow> nat \<Rightarrow> string" where
  "substring0 s n = take n s"

text \<open>
  \<^verbatim>\<open>s.trim()\<close> removes white space and line terminators at both ends; the string it
  returns is truthy when it is not empty.
\<close>

definition isWhiteSpace :: "char \<Rightarrow> bool" where
  "isWhiteSpace c = (c \<in> set [CHR '' '', CHR 0x09, CHR 0x0A, CHR 0x0B, CHR 0x0C, CHR 0x0D])"

definition trim :: "string \<Rightarrow> string" where
  "trim s = rev (dropWhile isWhiteSpace (rev (dropWhile isWhiteSpace s)))"

text \<open>\<^verbatim>\<open>s.split(',')\<close>: the pieces between the commas; never an empty array.\<close>

fun split_comma :: "string \<Rightarrow> string list" where
  "split_comma [] = [[]]"
| "split_comma (c # cs) =
     (if c = CHR '','' then [] # split_comma cs
      else (case split_comma cs of
              [] \<Rightarrow> [[c]]
            | w # ws \<Rightarrow> (c # w) # ws))"

subsection \<open>The configuration\<close>

text \<open>
  \<^verbatim>\<open>
  const CONFIG = (() => {
    const props = PropertiesService.getScriptProperties().getProperties();
    return {
      ...
      VIP_SENDERS: (props.TRIAGE_VIP_SENDERS || 'provost@alaska.edu,dean@alaska.edu').split(',').filter(s => s.trim()),
      VIP_DOMAINS: (props.TRIAGE_VIP_DOMAINS || 'alaska.edu,ua.edu').split(',').filter(s => s.trim()),
      KEEP_SENDERS: (props.TRIAGE_KEEP_SENDERS || '').split(',').filter(s => s.trim()),
      KEEP_DOMAINS: (props.TRIAGE_KEEP_DOMAINS || 'alaska.edu').split(',').filter(s => s.trim()),
      ...
      DRY_RUN: props.TRIAGE_DRY_RUN === 'true',
      PREVIEW_MODE: props.TRIAGE_PREVIEW_MODE === 'true'
      ...
      HIGH_CONFIDENCE: 0.8,
      MEDIUM_CONFIDENCE: 0.5,
      ...
    };
  })();
  \<close>
  Only the entries the classifier and the loop read are modelled. The source has no comma
  after the \<^verbatim>\<open>PREVIEW_MODE\<close> entry; the model reads the object literal with the comma in
  place. The entries of the four lists are stored as the properties give them: they are
  neither trimmed nor lower-cased.
\<close>

record props =
  TRIAGE_VIP_SENDERS :: "string option"
  TRIAGE_VIP_DOMAINS :: "string option"
  TRIAGE_KEEP_SENDERS :: "string option"
  TRIAGE_KEEP_DOMAINS :: "string option"
  TRIAGE_DRY_RUN :: "string option"
  TRIAGE_PREVIEW_MODE :: "string option"

record config =
  VIP_SENDERS :: "string list"
  VIP_DOMAINS :: "string list"
  KEEP_SENDERS :: "string list"
  KEEP_DOMAINS :: "string list"
  DRY_RUN :: bool
  PREVIEW_MODE :: bool
  HIGH_CONFIDENCE :: real
  MEDIUM_CONFIDENCE :: real

text \<open>\<^verbatim>\<open>p || d\<close> for a property that is a string or undefined: the empty string is falsy.\<close>

definition orDefault :: "string option \<Rightarrow> string \<Rightarrow> string" where
  "orDefault p d = (case p of None \<Rightarrow> d | Some s \<Rightarrow> if s = [] then d else s)"

definition parseList :: "string \<Rightarrow> string list" where
  "parseList s = filter (\<lambda>e. trim e \<noteq> []) (split_comma s)"

definition CONFIG :: "props \<Rightarrow> config" where
  "CONFIG p =
     \<lparr> VIP_SENDERS = parseList (orDefault (TRIAGE_VIP_SENDERS p) ''provost@alaska.edu,dean@alaska.edu''),
       VIP_DOMAINS = parseList (orDefault (TRIAGE_VIP_DOMAINS p) ''alaska.edu,ua.edu''),
       KEEP_SENDERS = parseList (orDefault (TRIAGE_KEEP_SENDERS p) []),
       KEEP_DOMAINS = parseList (orDefault (TRIAGE_KEEP_DOMAINS p) ''alaska.edu''),
       DRY_RUN = (TRIAGE_DRY_RUN p = Some ''true''),
       PREVIEW_MODE = (TRIAGE_PREVIEW_MODE p = Some ''true''),
       HIGH_CONFIDENCE = 8 / 10,
       MEDIUM_CONFIDENCE = 5 / 10 \<rparr>"

text \<open>The script properties of a fresh project: nothing is set.\<close>

definition noProps :: props where
  "noProps =
     \<lparr> TRIAGE_VIP_SENDERS = None, TRIAGE_VIP_DOMAINS = None, TRIAGE_KEEP_SENDERS = None,
       TRIAGE_KEEP_DOMAINS = None, TRIAGE_DRY_RUN = None, TRIAGE_PREVIEW_MODE = None \<rparr>"

subsection \<open>Sender normalisation\<close>

text \<open>
  \<^verbatim>\<open>
  _extractSenderEmail(fromString) {
    const match = fromString.match(/<(.+?)>/);
    return match ? match[1].toLowerCase() : fromString.toLowerCase();
  }
  \<close>
  The regular expression is matched at the leftmost position where it can match. There
  it reads a \<^verbatim>\<open><\<close>, then one character that is not a line terminator (it may be a
  \<^verbatim>\<open>>\<close>), then as few such characters as possible up to a \<^verbatim>\<open>>\<close>.
\<close>

definition isLineTerminator :: "char \<Rightarrow> bool" where
  "isLineTerminator c = (c = CHR 0x0A \<or> c = CHR 0x0D)"

text \<open>The lazy tail of the group: the characters before the first \<^verbatim>\<open>>\<close>, none of them a
  line terminator.\<close>

fun lazyUntilGt :: "string \<Rightarrow> string option" where
  "lazyUntilGt [] = None"
| "lazyUntilGt (c # cs) =
     (if c = CHR ''>'' then Some []
      else if isLineTerminator c then None
      else map_option ((#) c) (lazyUntilGt cs))"

text \<open>The group captured by a match that starts at the head of the string.\<close>

fun matchHere :: "string \<Rightarrow> string option" where
  "matchHere (a # c # cs) =
     (if a = CHR ''<'' \<and> \<not> isLineTerminator c then map_option ((#) c) (lazyUntilGt cs)
      else None)"
| "matchHere _ = None"

fun matchAngle :: "string \<Rightarrow> string option" where
  "matchAngle [] = None"
| "matchAngle (a # cs) =
     (case matchHere (a # cs) of
        Some g \<Rightarrow> Some g
      | None \<Rightarrow> matchAngle cs)"

definition extractSenderEmail :: "string \<Rightarrow> string" where
  "extractSenderEmail fromString =
     (case matchAngle fromString of
        Some g \<Rightarrow> toLowerCase g
      | None \<Rightarrow> toLowerCase fromString)"

subsection \<open>Allow lists\<close>

text \<open>
  \<^verbatim>\<open>
  _isVIP(sender) {
    if (CONFIG.VIP_SENDERS.includes(sender)) return true;
    for (const domain of CONFIG.VIP_DOMAINS) {
      if (sender.endsWith('@' + domain)) return true;
    }
    return false;
  }
  \<close>
  \<^verbatim>\<open>_isProtected\<close> is the same over \<^verbatim>\<open>KEEP_SENDERS\<close> and \<^verbatim>\<open>KEEP_DOMAINS\<close>.
\<close>

fun domainLoop :: "string \<Rightarrow> string list \<Rightarrow> bool" where
  "domainLoop sender [] = False"
| "domainLoop sender (domain # rest) =
     (if endsWith sender (CHR ''@'' # domain) then True else domainLoop sender rest)"

definition isVIP :: "config \<Rightarrow> string \<Rightarrow> bool" where
  "isVIP cfg sender =
     (if sender \<in> set (VIP_SENDERS cfg) then True
      else domainLoop sender (VIP_DOMAINS cfg))"

definition isProtected :: "config \<Rightarrow> string \<Rightarrow> bool" where
  "isProtected cfg sender =
     (if sender \<in> set (KEEP_SENDERS cfg) then True
      else domainLoop sender (KEEP_DOMAINS cfg))"

subsection \<open>Objects as dictionaries\<close>

type_synonym 'v jsobject = "(string \<times> 'v) list"

text \<open>
  \<^verbatim>\<open>Object.entries(o)\<close> lists the own properties of \<^verbatim>\<open>o\<close>: first the keys that are array
  indices (the decimal numerals of 0 to 4294967294, without a leading zero), by
  ascending value, then every other key in creation order.
\<close>

definition digitValue :: "char \<Rightarrow> int option" where
  "digitValue c = map_of (zip ''0123456789'' [0, 1, 2, 3, 4, 5, 6, 7, 8, 9]) c"

fun decimalValue :: "int \<Rightarrow> string \<Rightarrow> int option" where
  "decimalValue acc [] = Some acc"
| "decimalValue acc (c # cs) =
     (case digitValue c of
        None \<Rightarrow> None
      | Some d \<Rightarrow> decimalValue (10 * acc + d) cs)"

definition arrayIndex :: "string \<Rightarrow> int option" where
  "arrayIndex k =
     (if k = [] \<or> (hd k = CHR ''0'' \<and> tl k \<noteq> []) then None
      else (case decimalValue 0 k of
              None \<Rightarrow> None
            | Some n \<Rightarrow> if n < 4294967295 then Some n else None))"

definition indexOrder :: "string \<times> 'v \<Rightarrow> int" where
  "indexOrder e = (case arrayIndex (fst e) of None \<Rightarrow> 0 | Some n \<Rightarrow> n)"

definition objectEntries :: "'v jsobject \<Rightarrow> (string \<times> 'v) list" where
  "objectEntries obj =
     sort_key indexOrder (filter (\<lambda>e. arrayIndex (fst e) \<noteq> None) obj)
       @ filter (\<lambda>e. arrayIndex (fst e) = None) obj"

subsection \<open>The historical statistics\<close>

text \<open>
  The bundle \<^verbatim>\<open>HistoricalIntelligence.load\<close> builds: a sender profile is
  \<^verbatim>\<open>{count, avgLabels, importance}\<close>, a keyword profile \<^verbatim>\<open>{count, commonLabel, weight}\<close>
  (the two \<^verbatim>\<open>count\<close> fields are \<^verbatim>\<open>senderCount\<close> and \<^verbatim>\<open>keywordCount\<close> here). The classifier
  reads \<^verbatim>\<open>importance\<close>, \<^verbatim>\<open>commonLabel\<close> and \<^verbatim>\<open>weight\<close>. A bundle handed to the classifier
  may lack a field; a missing field is \<^term>\<open>None\<close>.
\<close>

record senderProfile =
  senderCount :: real
  avgLabels :: real
  importance :: string

record keywordProfile =
  keywordCount :: real
  commonLabel :: string
  weight :: real

record intelligence =
  senderProfiles :: "senderProfile jsobject option"
  keywordProfiles :: "keywordProfile jsobject option"

datatype error = TypeError

subsection \<open>The score map\<close>

text \<open>
  \<^verbatim>\<open>scoreMap\<close> starts as \<^verbatim>\<open>{}\<close>, an object that inherits the properties of
  \<^verbatim>\<open>Object.prototype\<close>. For a label that names one of them and is not yet an own
  property, \<^verbatim>\<open>scoreMap[label]\<close> reads the inherited function (for \<^verbatim>\<open>__proto__\<close> the
  prototype object), which is truthy, and \<^verbatim>\<open>+\<close> concatenates it with the number into a
  string that does not read as a number. \<^term>\<open>Text\<close> stands for such a value.
\<close>

datatype jsvalue = Number real | Text

definition objectPrototypeKeys :: "string list" where
  "objectPrototypeKeys =
     [''constructor'', ''__defineGetter__'', ''__defineSetter__'', ''hasOwnProperty'',
      ''__lookupGetter__'', ''__lookupSetter__'', ''isPrototypeOf'', ''propertyIsEnumerable'',
      ''toString'', ''valueOf'', ''__proto__'', ''toLocaleString'']"

text \<open>\<^verbatim>\<open>scoreMap[label]\<close>; \<^term>\<open>None\<close> is \<^verbatim>\<open>undefined\<close>.\<close>

definition readScore :: "jsvalue jsobject \<Rightarrow> string \<Rightarrow> jsvalue option" where
  "readScore scoreMap lbl =
     (case map_of scoreMap lbl of
        Some v \<Rightarrow> Some v
      | None \<Rightarrow> if lbl \<in> set objectPrototypeKeys then Some Text else None)"

text \<open>\<^verbatim>\<open>v || 0\<close>: \<^verbatim>\<open>undefined\<close> and the number 0 are falsy.\<close>

definition orZero :: "jsvalue option \<Rightarrow> jsvalue" where
  "orZero v =
     (case v of
        None \<Rightarrow> Number 0
      | Some (Number x) \<Rightarrow> if x = 0 then Number 0 else Number x
      | Some Text \<Rightarrow> Text)"

text \<open>\<^verbatim>\<open>v + w\<close> for a number \<^verbatim>\<open>w\<close>: addition of numbers, concatenation after a string.\<close>

definition plusNumber :: "jsvalue \<Rightarrow> real \<Rightarrow> jsvalue" where
  "plusNumber v w = (case v of Number x \<Rightarrow> Number (x + w) | Text \<Rightarrow> Text)"

text \<open>\<^verbatim>\<open>scoreMap[label] = v\<close>. The setter of \<^verbatim>\<open>__proto__\<close> ignores a value that is not an
  object, so no own property is made for that key.\<close>

definition writeScore :: "jsvalue jsobject \<Rightarrow> string \<Rightarrow> jsvalue \<Rightarrow> jsvalue jsobject" where
  "writeScore scoreMap lbl v =
     (if lbl = ''__proto__'' then scoreMap else AList.update lbl v scoreMap)"

text \<open>\<^verbatim>\<open>scoreMap[label] = (scoreMap[label] || 0) + w\<close>\<close>

definition addScore :: "jsvalue jsobject \<Rightarrow> string \<Rightarrow> real \<Rightarrow> jsvalue jsobject" where
  "addScore scoreMap lbl w = writeScore scoreMap lbl (plusNumber (orZero (readScore scoreMap lbl)) w)"

subsection \<open>The classifier\<close>

record decision =
  action :: string
  label :: "string option"
  confidence :: real
  reason :: string

text \<open>
  \<^verbatim>\<open>
  _classifyWithIntelligence(sender, subject, snippet) {
    let scoreMap = {};
    let totalWeight = 0;
    if (this.intelligence.senderProfiles[sender]) {
      const profile = this.intelligence.senderProfiles[sender];
      if (profile.importance === 'high') {
        scoreMap['Important'] = (scoreMap['Important'] || 0) + 0.4;
        totalWeight += 0.4;
      }
    }
    const text = (subject + ' ' + snippet).toLowerCase();
    for (const [keyword, profile] of Object.entries(this.intelligence.keywordProfiles || {})) {
      if (text.includes(keyword)) {
        const label = profile.commonLabel;
        if (label) {
          scoreMap[label] = (scoreMap[label] || 0) + profile.weight * 0.3;
          totalWeight += profile.weight * 0.3;
        }
      }
    }
    let bestLabel = null;
    let bestScore = 0;
    for (const [label, score] of Object.entries(scoreMap)) {
      if (score > bestScore) { bestScore = score; bestLabel = label; }
    }
    if (bestLabel && totalWeight > 0) {
      return { action: 'label', label: bestLabel,
               confidence: Math.min(bestScore / totalWeight, 1), reason: 'Historical pattern match' };
    }
    return { action: 'keep', label: null, confidence: 0, reason: 'No pattern match' };
  }
  \<close>
  Reading \<^verbatim>\<open>senderProfiles[sender]\<close> of a bundle without \<^verbatim>\<open>senderProfiles\<close> raises a
  \<^verbatim>\<open>TypeError\<close>. A property that \<^verbatim>\<open>senderProfiles\<close> only inherits has no
  \<^verbatim>\<open>importance\<close>, so the lookup among the own properties decides the branch.
\<close>

definition senderStep :: "senderProfile jsobject \<Rightarrow> string \<Rightarrow> jsvalue jsobject \<times> real" where
  "senderStep profiles sender =
     (case map_of profiles sender of
        None \<Rightarrow> ([], 0)
      | Some profile \<Rightarrow>
          if importance profile = ''high''
          then (addScore [] ''Important'' (4 / 10), 0 + 4 / 10)
          else ([], 0))"

fun keywordLoop ::
  "string \<Rightarrow> (string \<times> keywordProfile) list \<Rightarrow> jsvalue jsobject \<times> real \<Rightarrow> jsvalue jsobject \<times> real"
where
  "keywordLoop content [] st = st"
| "keywordLoop content ((keyword, profile) # rest) (scoreMap, totalWeight) =
     (if includesStr content keyword \<and> commonLabel profile \<noteq> []
      then keywordLoop content rest
             (addScore scoreMap (commonLabel profile) (weight profile * (3 / 10)),
              totalWeight + weight profile * (3 / 10))
      else keywordLoop content rest (scoreMap, totalWeight))"

fun bestLoop :: "(string \<times> jsvalue) list \<Rightarrow> string option \<times> real \<Rightarrow> string option \<times> real" where
  "bestLoop [] best = best"
| "bestLoop ((lbl, score) # rest) (bestLabel, bestScore) =
     (case score of
        Number s \<Rightarrow>
          if s > bestScore then bestLoop rest (Some lbl, s)
          else bestLoop rest (bestLabel, bestScore)
      | Text \<Rightarrow> bestLoop rest (bestLabel, bestScore))"

definition noPatternMatch :: decision where
  "noPatternMatch =
     \<lparr> action = ''keep'', label = None, confidence = 0, reason = ''No pattern match'' \<rparr>"

definition classifyWithIntelligence ::
  "intelligence \<Rightarrow> string \<Rightarrow> string \<Rightarrow> string \<Rightarrow> error + decision"
where
  "classifyWithIntelligence intel sender subject snippet =
     (case senderProfiles intel of
        None \<Rightarrow> Inl TypeError
      | Some profiles \<Rightarrow>
          (let content = toLowerCase (subject @ '' '' @ snippet);
               keywords = objectEntries (case keywordProfiles intel of None \<Rightarrow> [] | Some kp \<Rightarrow> kp);
               (scoreMap, totalWeight) = keywordLoop content keywords (senderStep profiles sender);
               (bestLabel, bestScore) = bestLoop (objectEntries scoreMap) (None, 0)
           in (case bestLabel of
                 None \<Rightarrow> Inr noPatternMatch
               | Some lbl \<Rightarrow>
                   if lbl \<noteq> [] \<and> totalWeight > 0
                   then Inr \<lparr> action = ''label'', label = Some lbl,
                              confidence = min (bestScore / totalWeight) 1,
                              reason = ''Historical pattern match'' \<rparr>
                   else Inr noPatternMatch)))"

text \<open>
  \<^verbatim>\<open>
  _ruleBasedClassification(sender, subject, snippet) {
    const text = (subject + ' ' + snippet).toLowerCase();
    if (sender.endsWith('@alaska.edu') || sender.endsWith('@ua.edu')) {
      if (text.includes('meeting') || text.includes('schedule')) {
        return { action: 'label', label: 'Meetings', confidence: 0.8, reason: 'Meeting related' };
      }
      if (text.includes('student') || text.includes('grade')) {
        return { action: 'label', label: 'Students', confidence: 0.8, reason: 'Student related' };
      }
      if (text.includes('department') || text.includes('faculty')) {
        return { action: 'label', label: 'Department', confidence: 0.7, reason: 'Department business' };
      }
    }
    if (text.includes('unsubscribe') || text.includes('newsletter')) {
      return { action: 'label', label: 'Newsletters', confidence: 0.9, reason: 'Newsletter detected' };
    }
    return { action: 'keep', label: null, confidence: 0.3, reason: 'No specific rule matched' };
  }
  \<close>
\<close>

definition academicRules :: "string \<Rightarrow> decision option" where
  "academicRules content =
     (if includesStr content ''meeting'' \<or> includesStr content ''schedule''
      then Some \<lparr> action = ''label'', label = Some ''Meetings'', confidence = 8 / 10,
                  reason = ''Meeting related'' \<rparr>
      else if includesStr content ''student'' \<or> includesStr content ''grade''
      then Some \<lparr> action = ''label'', label = Some ''Students'', confidence = 8 / 10,
                  reason = ''Student related'' \<rparr>
      else if includesStr content ''department'' \<or> includesStr content ''faculty''
      then Some \<lparr> action = ''label'', label = Some ''Department'', confidence = 7 / 10,
                  reason = ''Department business'' \<rparr>
      else None)"

definition generalRules :: "string \<Rightarrow> decision" where
  "generalRules content =
     (if includesStr content ''unsubscribe'' \<or> includesStr content ''newsletter''
      then \<lparr> action = ''label'', label = Some ''Newsletters'', confidence = 9 / 10,
             reason = ''Newsletter detected'' \<rparr>
      else \<lparr> action = ''keep'', label = None, confidence = 3 / 10,
             reason = ''No specific rule matched'' \<rparr>)"

definition ruleBasedClassification :: "string \<Rightarrow> string \<Rightarrow> string \<Rightarrow> decision" where
  "ruleBasedClassification sender subject snippet =
     (let content = toLowerCase (subject @ '' '' @ snippet)
      in if endsWith sender ''@alaska.edu'' \<or> endsWith sender ''@ua.edu''
         then (case academicRules content of
                 Some d \<Rightarrow> d
               | None \<Rightarrow> generalRules content)
         else generalRules content)"

text \<open>
  A thread, as \<^verbatim>\<open>classifyThread\<close> and \<^verbatim>\<open>processInbox\<close> read it:
  \<^verbatim>\<open>thread.getMessages()[0].getFrom()\<close>, \<^verbatim>\<open>thread.getFirstMessageSubject()\<close>,
  \<^verbatim>\<open>thread.getMessages()[0].getPlainBody()\<close> and \<^verbatim>\<open>thread.isStarred()\<close>.

  \<^verbatim>\<open>
  classifyThread(thread) {
    const firstMessage = thread.getMessages()[0];
    const sender = this._extractSenderEmail(firstMessage.getFrom());
    const subject = thread.getFirstMessageSubject();
    const snippet = firstMessage.getPlainBody().substring(0, 500);
    if (this._isVIP(sender)) {
      return { action: 'star', label: 'VIP', confidence: 1.0, reason: 'VIP sender' };
    }
    if (this._isProtected(sender)) {
      return { action: 'keep', label: null, confidence: 1.0, reason: 'Protected sender' };
    }
    if (this.intelligence) {
      const classification = this._classifyWithIntelligence(sender, subject, snippet);
      if (classification.confidence >= CONFIG.MEDIUM_CONFIDENCE) {
        return classification;
      }
    }
    return this._ruleBasedClassification(sender, subject, snippet);
  }
  \<close>
\<close>

record thread =
  getFrom :: string
  getFirstMessageSubject :: string
  getPlainBody :: string
  isStarred :: bool

definition vipDecision :: decision where
  "vipDecision = \<lparr> action = ''star'', label = Some ''VIP'', confidence = 1, reason = ''VIP sender'' \<rparr>"

definition protectedDecision :: decision where
  "protectedDecision =
     \<lparr> action = ''keep'', label = None, confidence = 1, reason = ''Protected sender'' \<rparr>"

definition classifyThread :: "config \<Rightarrow> intelligence option \<Rightarrow> thread \<Rightarrow> error + decision" where
  "classifyThread cfg intel thr =
     (let sender = extractSenderEmail (getFrom thr);
          subject = getFirstMessageSubject thr;
          snippet = substring0 (getPlainBody thr) 500
      in if isVIP cfg sender then Inr vipDecision
         else if isProtected cfg sender then Inr protectedDecision
         else (case intel of
                 None \<Rightarrow> Inr (ruleBasedClassification sender subject snippet)
               | Some i \<Rightarrow>
                   (case classifyWithIntelligence i sender subject snippet of
                      Inl e \<Rightarrow> Inl e
                    | Inr classification \<Rightarrow>
                        if confidence classification \<ge> MEDIUM_CONFIDENCE cfg
                        then Inr classification
                        else Inr (ruleBasedClassification sender subject snippet))))"

subsection \<open>Applying a decision\<close>

text \<open>
  The body of the loop of \<^verbatim>\<open>processInbox\<close> for one thread, as the list of mailbox
  operations it performs (log lines are left out). An exception raised by
  \<^verbatim>\<open>classifyThread\<close> is caught by the loop, which then does nothing to the thread.
  \<^verbatim>\<open>
  const result = classifier.classifyThread(thread);
  if (CONFIG.DRY_RUN) { ... log only ...
  } else if (CONFIG.PREVIEW_MODE) {
    thread.addLabel(GmailApp.createLabel(`_Triage/PREVIEW-${result.action}`));
    if (result.label) thread.addLabel(GmailApp.createLabel(`_Triage/PREVIEW-${result.label}`));
  } else {
    switch (result.action) {
      case 'star':
        thread.addLabel(GmailApp.createLabel('VIP'));
        thread.markImportant();
        if (!thread.isStarred()) GmailApp.starMessage(thread.getMessages()[0]);
        break;
      case 'label':
        if (result.label) {
          thread.addLabel(GmailApp.createLabel(result.label));
          const sender = classifier._extractSenderEmail(thread.getMessages()[0].getFrom());
          const isEduDomain = sender.endsWith('.edu');
          if (result.confidence >= CONFIG.HIGH_CONFIDENCE && !isEduDomain) thread.moveToArchive();
        }
        break;
      case 'archive':
        const archiveSender = classifier._extractSenderEmail(thread.getMessages()[0].getFrom());
        if (!archiveSender.endsWith('.edu')) thread.moveToArchive();
        break;
      default:
    }
  }
  thread.addLabel(GmailApp.createLabel('_Triage/Processed'));
  \<close>
\<close>

datatype effect = AddLabel string | MarkImportant | StarMessage | MoveToArchive

definition productionSwitch :: "config \<Rightarrow> thread \<Rightarrow> decision \<Rightarrow> effect list" where
  "productionSwitch cfg thr result =
     (if action result = ''star''
      then [AddLabel ''VIP'', MarkImportant] @ (if \<not> isStarred thr then [StarMessage] else [])
      else if action result = ''label''
      then (case label result of
              None \<Rightarrow> []
            | Some l \<Rightarrow>
                if l = [] then []
                else AddLabel l #
                  (if confidence result \<ge> HIGH_CONFIDENCE cfg
                      \<and> \<not> endsWith (extractSenderEmail (getFrom thr)) ''.edu''
                   then [MoveToArchive] else []))
      else if action result = ''archive''
      then (if \<not> endsWith (extractSenderEmail (getFrom thr)) ''.edu'' then [MoveToArchive] else [])
      else [])"

definition applyDecision :: "config \<Rightarrow> thread \<Rightarrow> decision \<Rightarrow> effect list" where
  "applyDecision cfg thr result =
     (if DRY_RUN cfg then []
      else if PREVIEW_MODE cfg
      then AddLabel (''_Triage/PREVIEW-'' @ action result) #
             (case label result of
                None \<Rightarrow> []
              | Some l \<Rightarrow> if l = [] then [] else [AddLabel (''_Triage/PREVIEW-'' @ l)])
      else productionSwitch cfg thr result)
     @ [AddLabel ''_Triage/Processed'']"

definition processThread :: "config \<Rightarrow> intelligence option \<Rightarrow> thread \<Rightarrow> effect list" where
  "processThread cfg intel thr =
     (case classifyThread cfg intel thr of
        Inl e \<Rightarrow> []
      | Inr result \<Rightarrow> applyDecision cfg thr result)"

subsection \<open>Example inputs\<close>

text \<open>Script properties that protect one partner address and one partner domain.\<close>

definition keepProps :: props where
  "keepProps = noProps \<lparr> TRIAGE_KEEP_SENDERS := Some ''registrar@example.org'',
                          TRIAGE_KEEP_DOMAINS := Some ''partner.example.com'' \<rparr>"

text \<open>Three keywords of equal weight, each with a label of its own.\<close>

definition threeKeywords :: intelligence where
  "threeKeywords =
     \<lparr> senderProfiles = Some [],
       keywordProfiles = Some
         [(''sale'', \<lparr> keywordCount = 50, commonLabel = ''Promotions'', weight = 1 / 2 \<rparr>),
          (''invoice'', \<lparr> keywordCount = 50, commonLabel = ''Finance'', weight = 1 / 2 \<rparr>),
          (''order'', \<lparr> keywordCount = 50, commonLabel = ''Orders'', weight = 1 / 2 \<rparr>)] \<rparr>"

text \<open>Script properties whose VIP and protected domains do not cover alaska.edu.\<close>

definition openProps :: props where
  "openProps = noProps \<lparr> TRIAGE_VIP_DOMAINS := Some ''example.org'',
                           TRIAGE_KEEP_DOMAINS := Some ''example.org'' \<rparr>"

text \<open>A bundle with empty maps.\<close>

definition emptyStatistics :: intelligence where
  "emptyStatistics = \<lparr> senderProfiles = Some [], keywordProfiles = Some [] \<rparr>"

text \<open>The keywords the rules of the fallback look for.\<close>

definition ruleKeywords :: "string list" where
  "ruleKeywords = [''meeting'', ''schedule'', ''student'', ''grade'', ''department'', ''faculty'',
                   ''unsubscribe'', ''newsletter'']"

text \<open>
  Script properties that differ only in the letter case of one VIP sender and of one
  protected domain.
\<close>

definition mixedCaseProps :: props where
  "mixedCaseProps = noProps \<lparr> TRIAGE_VIP_SENDERS := Some ''Boss@Example.com'',
                                TRIAGE_VIP_DOMAINS := Some ''example.org'',
                                TRIAGE_KEEP_DOMAINS := Some ''Partner.Example.com'' \<rparr>"

definition lowerCaseProps :: props where
  "lowerCaseProps = noProps \<lparr> TRIAGE_VIP_SENDERS := Some ''boss@example.com'',
                                TRIAGE_VIP_DOMAINS := Some ''example.org'',
                                TRIAGE_KEEP_DOMAINS := Some ''partner.example.com'' \<rparr>"

subsection \<open>The contributions to the score map\<close>

text \<open>
  What one call of the scorer adds, as pairs of a label and an amount in the order of the
  additions: 0.4 for \<^verbatim>\<open>Important\<close> when the sender has a profile of high importance, then
  \<^verbatim>\<open>weight * 0.3\<close> for the label of every keyword that occurs in the text and has a
  label. Each pair is added to the entry of its label and to \<^verbatim>\<open>totalWeight\<close>.
\<close>

definition senderContribution :: "senderProfile jsobject \<Rightarrow> string \<Rightarrow> (string \<times> real) list" where
  "senderContribution profiles sender =
     (case map_of profiles sender of
        None \<Rightarrow> []
      | Some profile \<Rightarrow> if importance profile = ''high'' then [(''Important'', 4 / 10)] else [])"

definition keywordContributions ::
  "string \<Rightarrow> (string \<times> keywordProfile) list \<Rightarrow> (string \<times> real) list"
where
  "keywordContributions content keywords =
     map (\<lambda>e. (commonLabel (snd e), weight (snd e) * (3 / 10)))
       (filter (\<lambda>e. includesStr content (fst e) \<and> commonLabel (snd e) \<noteq> []) keywords)"

definition contributions :: "intelligence \<Rightarrow> string \<Rightarrow> string \<Rightarrow> string \<Rightarrow> (string \<times> real) list" where
  "contributions i sender subject snippet =
     senderContribution (case senderProfiles i of None \<Rightarrow> [] | Some sp \<Rightarrow> sp) sender
     @ keywordContributions (toLowerCase (subject @ '' '' @ snippet))
         (objectEntries (case keywordProfiles i of None \<Rightarrow> [] | Some kp \<Rightarrow> kp))"

definition contribute :: "jsvalue jsobject \<times> real \<Rightarrow> string \<times> real \<Rightarrow> jsvalue jsobject \<times> real" where
  "contribute st c = (addScore (fst st) (fst c) (snd c), snd st + snd c)"

text \<open>Two keywords of small weight with one label.\<close>

definition smallWeights :: intelligence where
  "smallWeights =
     \<lparr> senderProfiles = Some [],
       keywordProfiles = Some
         [(''sale'', \<lparr> keywordCount = 1, commonLabel = ''Promotions'', weight = 1 / 100 \<rparr>),
          (''discount'', \<lparr> keywordCount = 1, commonLabel = ''Promotions'', weight = 1 / 100 \<rparr>)] \<rparr>"

text \<open>A keyword of weight 0, as the loader computes it from a count of 0.\<close>

definition zeroWeight :: intelligence where
  "zeroWeight =
     \<lparr> senderProfiles = Some [],
       keywordProfiles = Some
         [(''sale'', \<lparr> keywordCount = 0, commonLabel = ''Promotions'', weight = 0 \<rparr>)] \<rparr>"

text \<open>A keyword whose label names a property that every object inherits.\<close>

definition inheritedLabel :: intelligence where
  "inheritedLabel =
     \<lparr> senderProfiles = Some [],
       keywordProfiles = Some
         [(''sale'', \<lparr> keywordCount = 50, commonLabel = ''constructor'', weight = 1 / 2 \<rparr>)] \<rparr>"

text \<open>Script properties that switch the dry run on.\<close>

definition dryRunProps :: props where
  "dryRunProps = noProps \<lparr> TRIAGE_DRY_RUN := Some ''true'' \<rparr>"

section \<open>Properties\<close>

subsection \<open>Evaluation on concrete inputs\<close>

lemmas string_defs = extractSenderEmail_def toLowerCase_def toLowerCaseChar_def
  isLineTerminator_def endsWith_def includesStr_def substring0_def suffix_to_prefix
  sublist_code(3)

lemmas scorer_defs = classifyWithIntelligence_def senderStep_def addScore_def readScore_def
  orZero_def plusNumber_def writeScore_def objectPrototypeKeys_def objectEntries_def
  arrayIndex_def digitValue_def noPatternMatch_def

lemmas rule_defs = ruleBasedClassification_def academicRules_def generalRules_def

lemmas props_defs = CONFIG_def noProps_def orDefault_def parseList_def trim_def isWhiteSpace_def

lemma CONFIG_noProps:
  "CONFIG noProps =
     \<lparr> VIP_SENDERS = [''provost@alaska.edu'', ''dean@alaska.edu''],
       VIP_DOMAINS = [''alaska.edu'', ''ua.edu''],
       KEEP_SENDERS = [],
       KEEP_DOMAINS = [''alaska.edu''],
       DRY_RUN = False, PREVIEW_MODE = False,
       HIGH_CONFIDENCE = 8 / 10, MEDIUM_CONFIDENCE = 5 / 10 \<rparr>"
  by (simp add: props_defs)

lemma CONFIG_keepProps:
  "CONFIG keepProps =
     \<lparr> VIP_SENDERS = [''provost@alaska.edu'', ''dean@alaska.edu''],
       VIP_DOMAINS = [''alaska.edu'', ''ua.edu''],
       KEEP_SENDERS = [''registrar@example.org''],
       KEEP_DOMAINS = [''partner.example.com''],
       DRY_RUN = False, PREVIEW_MODE = False,
       HIGH_CONFIDENCE = 8 / 10, MEDIUM_CONFIDENCE = 5 / 10 \<rparr>"
  by (simp add: keepProps_def props_defs)

subsection \<open>The allow lists\<close>

lemma domainLoop_iff:
  "domainLoop sender ds \<longleftrightarrow> (\<exists>d \<in> set ds. endsWith sender (CHR ''@'' # d))"
  by (induction ds) auto

lemma isVIP_iff:
  "isVIP cfg sender \<longleftrightarrow>
     sender \<in> set (VIP_SENDERS cfg)
       \<or> (\<exists>d \<in> set (VIP_DOMAINS cfg). endsWith sender (CHR ''@'' # d))"
  by (simp add: isVIP_def domainLoop_iff)

lemma isProtected_iff:
  "isProtected cfg sender \<longleftrightarrow>
     sender \<in> set (KEEP_SENDERS cfg)
       \<or> (\<exists>d \<in> set (KEEP_DOMAINS cfg). endsWith sender (CHR ''@'' # d))"
  by (simp add: isProtected_def domainLoop_iff)

text \<open>
  Claim C1. When the normalised sender of a thread is an entry of \<^verbatim>\<open>VIP_SENDERS\<close> or ends
  with \<^verbatim>\<open>@\<close> followed by an entry of \<^verbatim>\<open>VIP_DOMAINS\<close>, \<^verbatim>\<open>classifyThread\<close> returns exactly
  the decision star, VIP, confidence 1, reason "VIP sender", whatever the subject, the body
  and the statistics bundle are (a missing bundle and a bundle without its fields
  included): the check comes before every other signal.
\<close>

theorem vip_precedence:
  assumes "sender = extractSenderEmail (getFrom thr)"
    and "sender \<in> set (VIP_SENDERS cfg)
           \<or> (\<exists>domain \<in> set (VIP_DOMAINS cfg). endsWith sender (CHR ''@'' # domain))"
  shows "classifyThread cfg intel thr =
           Inr \<lparr> action = ''star'', label = Some ''VIP'', confidence = 1,
                 reason = ''VIP sender'' \<rparr>"
  using assms by (simp add: classifyThread_def isVIP_iff vipDecision_def)

theorem vip_precedence_witness:
  "''dean@alaska.edu'' = extractSenderEmail ''The Dean <Dean@Alaska.EDU>''
   \<and> ''dean@alaska.edu'' \<in> set (VIP_SENDERS (CONFIG noProps))
   \<and> classifyThread (CONFIG noProps) (Some \<lparr> senderProfiles = None, keywordProfiles = None \<rparr>)
        \<lparr> getFrom = ''The Dean <Dean@Alaska.EDU>'',
          getFirstMessageSubject = ''Unsubscribe from the newsletter'',
          getPlainBody = ''meeting'', isStarred = False \<rparr>
      = Inr \<lparr> action = ''star'', label = Some ''VIP'', confidence = 1, reason = ''VIP sender'' \<rparr>"
  using vip_precedence [of "''dean@alaska.edu''"
      "\<lparr> getFrom = ''The Dean <Dean@Alaska.EDU>'',
         getFirstMessageSubject = ''Unsubscribe from the newsletter'',
         getPlainBody = ''meeting'', isStarred = False \<rparr>"
      "CONFIG noProps" "Some \<lparr> senderProfiles = None, keywordProfiles = None \<rparr>"]
  by (simp add: CONFIG_noProps string_defs)

text \<open>
  Claim C2. When the normalised sender is not VIP and is an entry of \<^verbatim>\<open>KEEP_SENDERS\<close> or
  ends with \<^verbatim>\<open>@\<close> followed by an entry of \<^verbatim>\<open>KEEP_DOMAINS\<close>, \<^verbatim>\<open>classifyThread\<close> returns
  exactly the decision keep, no label, confidence 1, reason "Protected sender", whatever
  the subject, the body and the statistics bundle are.
\<close>

theorem protected_precedence:
  assumes "sender = extractSenderEmail (getFrom thr)"
    and "\<not> (sender \<in> set (VIP_SENDERS cfg)
           \<or> (\<exists>domain \<in> set (VIP_DOMAINS cfg). endsWith sender (CHR ''@'' # domain)))"
    and "sender \<in> set (KEEP_SENDERS cfg)
           \<or> (\<exists>domain \<in> set (KEEP_DOMAINS cfg). endsWith sender (CHR ''@'' # domain))"
  shows "classifyThread cfg intel thr =
           Inr \<lparr> action = ''keep'', label = None, confidence = 1,
                 reason = ''Protected sender'' \<rparr>"
  using assms by (simp add: classifyThread_def isVIP_iff isProtected_iff protectedDecision_def)

theorem protected_precedence_witness:
  "''ann@partner.example.com'' = extractSenderEmail ''Ann <Ann@Partner.Example.com>''
   \<and> \<not> (''ann@partner.example.com'' \<in> set (VIP_SENDERS (CONFIG keepProps))
           \<or> (\<exists>domain \<in> set (VIP_DOMAINS (CONFIG keepProps)).
                 endsWith ''ann@partner.example.com'' (CHR ''@'' # domain)))
   \<and> (\<exists>domain \<in> set (KEEP_DOMAINS (CONFIG keepProps)).
         endsWith ''ann@partner.example.com'' (CHR ''@'' # domain))
   \<and> classifyThread (CONFIG keepProps) (Some \<lparr> senderProfiles = None, keywordProfiles = None \<rparr>)
        \<lparr> getFrom = ''Ann <Ann@Partner.Example.com>'', getFirstMessageSubject = ''Newsletter'',
          getPlainBody = ''unsubscribe'', isStarred = False \<rparr>
      = Inr \<lparr> action = ''keep'', label = None, confidence = 1, reason = ''Protected sender'' \<rparr>"
  using protected_precedence [of "''ann@partner.example.com''"
      "\<lparr> getFrom = ''Ann <Ann@Partner.Example.com>'', getFirstMessageSubject = ''Newsletter'',
         getPlainBody = ''unsubscribe'', isStarred = False \<rparr>"
      "CONFIG keepProps" "Some \<lparr> senderProfiles = None, keywordProfiles = None \<rparr>"]
  by (simp add: CONFIG_keepProps string_defs)

subsection \<open>The gate on the historical result\<close>

lemma classifyWithIntelligence_total:
  assumes "senderProfiles i = Some sp"
  shows "\<exists>h. classifyWithIntelligence i sender subject snippet = Inr h"
  using assms
  by (auto simp: classifyWithIntelligence_def Let_def split: prod.splits option.splits)

lemma classifyWithIntelligence_reason:
  assumes "classifyWithIntelligence i sender subject snippet = Inr h"
  shows "reason h = ''Historical pattern match'' \<or> reason h = ''No pattern match''"
  using assms
  by (auto simp: classifyWithIntelligence_def Let_def noPatternMatch_def
           split: prod.splits option.splits if_splits)

lemma ruleBasedClassification_reason:
  "reason (ruleBasedClassification sender subject snippet) \<in>
     {''Meeting related'', ''Student related'', ''Department business'',
      ''Newsletter detected'', ''No specific rule matched''}"
  by (simp add: rule_defs Let_def)

lemma historical_differs_from_rules:
  assumes "classifyWithIntelligence i sender subject snippet = Inr h"
  shows "h \<noteq> ruleBasedClassification sender' subject' snippet'"
proof
  assume "h = ruleBasedClassification sender' subject' snippet'"
  then have "reason h \<in> {''Meeting related'', ''Student related'', ''Department business'',
      ''Newsletter detected'', ''No specific rule matched''}"
    using ruleBasedClassification_reason by simp
  with classifyWithIntelligence_reason [OF assms] show False by auto
qed

text \<open>
  Claim C3. For a sender that is neither VIP nor protected: with a statistics bundle (one
  that has its sender profiles, so that the scorer returns), \<^verbatim>\<open>classifyThread\<close> returns
  the scorer's result if and only if the confidence of that result is at least
  \<^verbatim>\<open>MEDIUM_CONFIDENCE\<close>, the threshold included; when the confidence is below the
  threshold, and when there is no bundle, the result is the one of the rule-based
  fallback on the same sender, subject and snippet.
\<close>

theorem historical_gate:
  assumes "sender = extractSenderEmail (getFrom thr)"
    and "subject = getFirstMessageSubject thr"
    and "snippet = substring0 (getPlainBody thr) 500"
    and "\<not> isVIP cfg sender" and "\<not> isProtected cfg sender"
  shows "(\<forall>i. senderProfiles i \<noteq> None \<longrightarrow>
            (\<exists>h. classifyWithIntelligence i sender subject snippet = Inr h
               \<and> (classifyThread cfg (Some i) thr = Inr h
                    \<longleftrightarrow> confidence h \<ge> MEDIUM_CONFIDENCE cfg)
               \<and> (confidence h < MEDIUM_CONFIDENCE cfg \<longrightarrow>
                    classifyThread cfg (Some i) thr
                      = Inr (ruleBasedClassification sender subject snippet))))
       \<and> classifyThread cfg None thr = Inr (ruleBasedClassification sender subject snippet)"
proof (intro conjI allI impI)
  fix i :: intelligence
  assume "senderProfiles i \<noteq> None"
  then obtain h where h: "classifyWithIntelligence i sender subject snippet = Inr h"
    using classifyWithIntelligence_total by blast
  have below: "classifyThread cfg (Some i) thr
                 = Inr (ruleBasedClassification sender subject snippet)"
    if "confidence h < MEDIUM_CONFIDENCE cfg"
    using that assms h by (simp add: classifyThread_def)
  have above: "classifyThread cfg (Some i) thr = Inr h"
    if "confidence h \<ge> MEDIUM_CONFIDENCE cfg"
    using that assms h by (simp add: classifyThread_def)
  have "classifyThread cfg (Some i) thr = Inr h \<longleftrightarrow> confidence h \<ge> MEDIUM_CONFIDENCE cfg"
  proof
    assume eq: "classifyThread cfg (Some i) thr = Inr h"
    show "confidence h \<ge> MEDIUM_CONFIDENCE cfg"
    proof (rule ccontr)
      assume "\<not> confidence h \<ge> MEDIUM_CONFIDENCE cfg"
      then have "classifyThread cfg (Some i) thr
                   = Inr (ruleBasedClassification sender subject snippet)"
        using below by simp
      with eq have "h = ruleBasedClassification sender subject snippet" by simp
      with historical_differs_from_rules [OF h] show False by blast
    qed
  next
    assume "confidence h \<ge> MEDIUM_CONFIDENCE cfg"
    then show "classifyThread cfg (Some i) thr = Inr h" by (rule above)
  qed
  with h below
  show "\<exists>h. classifyWithIntelligence i sender subject snippet = Inr h
          \<and> (classifyThread cfg (Some i) thr = Inr h
               \<longleftrightarrow> confidence h \<ge> MEDIUM_CONFIDENCE cfg)
          \<and> (confidence h < MEDIUM_CONFIDENCE cfg \<longrightarrow>
               classifyThread cfg (Some i) thr
                 = Inr (ruleBasedClassification sender subject snippet))"
    by blast
next
  show "classifyThread cfg None thr = Inr (ruleBasedClassification sender subject snippet)"
    using assms by (simp add: classifyThread_def)
qed

text \<open>
  At the threshold: two matched keywords of equal weight with different labels give the
  confidence 0.15 / 0.30, which equals \<^verbatim>\<open>MEDIUM_CONFIDENCE\<close>, and the historical result is
  returned.
\<close>

theorem historical_gate_witness:
  "\<not> isVIP (CONFIG noProps) (extractSenderEmail ''Shop <shop@example.com>'')
   \<and> \<not> isProtected (CONFIG noProps) (extractSenderEmail ''Shop <shop@example.com>'')
   \<and> senderProfiles threeKeywords \<noteq> None
   \<and> classifyWithIntelligence threeKeywords (extractSenderEmail ''Shop <shop@example.com>'')
        ''Sale invoice'' (substring0 ''The invoice of the sale.'' 500)
      = Inr \<lparr> action = ''label'', label = Some ''Promotions'', confidence = 1 / 2,
              reason = ''Historical pattern match'' \<rparr>
   \<and> MEDIUM_CONFIDENCE (CONFIG noProps) = 1 / 2
   \<and> classifyThread (CONFIG noProps) (Some threeKeywords)
        \<lparr> getFrom = ''Shop <shop@example.com>'', getFirstMessageSubject = ''Sale invoice'',
          getPlainBody = ''The invoice of the sale.'', isStarred = False \<rparr>
      = Inr \<lparr> action = ''label'', label = Some ''Promotions'', confidence = 1 / 2,
              reason = ''Historical pattern match'' \<rparr>"
proof -
  let ?thr = "\<lparr> getFrom = ''Shop <shop@example.com>'', getFirstMessageSubject = ''Sale invoice'',
                 getPlainBody = ''The invoice of the sale.'', isStarred = False \<rparr>"
  let ?sender = "extractSenderEmail ''Shop <shop@example.com>''"
  let ?snippet = "substring0 ''The invoice of the sale.'' 500"
  have sender: "?sender = extractSenderEmail (getFrom ?thr)" by simp
  have subject: "''Sale invoice'' = getFirstMessageSubject ?thr" by simp
  have snippet: "?snippet = substring0 (getPlainBody ?thr) 500" by simp
  have nv: "\<not> isVIP (CONFIG noProps) ?sender"
    by (simp add: isVIP_def CONFIG_noProps string_defs)
  have np: "\<not> isProtected (CONFIG noProps) ?sender"
    by (simp add: isProtected_def CONFIG_noProps string_defs)
  have sp: "senderProfiles threeKeywords \<noteq> None"
    by (simp add: threeKeywords_def)
  have cw: "classifyWithIntelligence threeKeywords ?sender ''Sale invoice'' ?snippet
      = Inr \<lparr> action = ''label'', label = Some ''Promotions'', confidence = 1 / 2,
              reason = ''Historical pattern match'' \<rparr>"
    by (simp add: threeKeywords_def scorer_defs string_defs)
  have m: "MEDIUM_CONFIDENCE (CONFIG noProps) = 1 / 2"
    by (simp add: CONFIG_noProps)
  from historical_gate [OF sender subject snippet nv np, THEN conjunct1, rule_format, OF sp]
  obtain h where h: "classifyWithIntelligence threeKeywords ?sender ''Sale invoice'' ?snippet = Inr h"
    and gate: "classifyThread (CONFIG noProps) (Some threeKeywords) ?thr = Inr h
                 \<longleftrightarrow> confidence h \<ge> MEDIUM_CONFIDENCE (CONFIG noProps)"
    by blast
  from h cw have "h = \<lparr> action = ''label'', label = Some ''Promotions'', confidence = 1 / 2,
                        reason = ''Historical pattern match'' \<rparr>"
    by simp
  with gate m have "classifyThread (CONFIG noProps) (Some threeKeywords) ?thr
      = Inr \<lparr> action = ''label'', label = Some ''Promotions'', confidence = 1 / 2,
              reason = ''Historical pattern match'' \<rparr>"
    by simp
  with nv np sp cw m show ?thesis by blast
qed

text \<open>
  Below the threshold: three matched keywords of equal weight give the confidence 1/3, and
  the result is the one of the rules.
\<close>

lemma historical_gate_below_example:
  "classifyWithIntelligence threeKeywords ''shop@example.com'' ''Sale invoice order'' []
     = Inr \<lparr> action = ''label'', label = Some ''Promotions'', confidence = 1 / 3,
             reason = ''Historical pattern match'' \<rparr>
   \<and> classifyThread (CONFIG noProps) (Some threeKeywords)
        \<lparr> getFrom = ''Shop <shop@example.com>'', getFirstMessageSubject = ''Sale invoice order'',
          getPlainBody = [], isStarred = False \<rparr>
      = Inr \<lparr> action = ''keep'', label = None, confidence = 3 / 10,
              reason = ''No specific rule matched'' \<rparr>"
  by (simp add: classifyThread_def isVIP_def isProtected_def CONFIG_noProps threeKeywords_def
        scorer_defs string_defs rule_defs)

subsection \<open>The rule-based fallback\<close>

lemma CONFIG_openProps:
  "CONFIG openProps =
     \<lparr> VIP_SENDERS = [''provost@alaska.edu'', ''dean@alaska.edu''],
       VIP_DOMAINS = [''example.org''],
       KEEP_SENDERS = [],
       KEEP_DOMAINS = [''example.org''],
       DRY_RUN = False, PREVIEW_MODE = False,
       HIGH_CONFIDENCE = 8 / 10, MEDIUM_CONFIDENCE = 5 / 10 \<rparr>"
  by (simp add: openProps_def props_defs)

lemma MEDIUM_CONFIDENCE_CONFIG: "MEDIUM_CONFIDENCE (CONFIG p) = 1 / 2"
  by (simp add: CONFIG_def)

lemma HIGH_CONFIDENCE_CONFIG: "HIGH_CONFIDENCE (CONFIG p) = 4 / 5"
  by (simp add: CONFIG_def)

lemma classifyWithIntelligence_emptyStatistics:
  "classifyWithIntelligence emptyStatistics sender subject snippet = Inr noPatternMatch"
  by (simp add: emptyStatistics_def classifyWithIntelligence_def senderStep_def objectEntries_def)

text \<open>
  Claim C4, as amended. The fallback is a decision tree over the lower-cased text
  "subject, space, snippet", first match first: for a sender that ends with
  \<^verbatim>\<open>@alaska.edu\<close> or \<^verbatim>\<open>@ua.edu\<close>, "meeting" or "schedule" gives Meetings with
  confidence 0.8, else "student" or "grade" gives Students with 0.8, else "department" or
  "faculty" gives Department with 0.7; then, for every sender, "unsubscribe" or
  "newsletter" gives Newsletters with 0.9; otherwise the decision is keep, no label,
  confidence 0.3, reason "No specific rule matched". For a sender that is neither VIP nor
  protected, \<^verbatim>\<open>classifyThread\<close> with empty statistics maps and a text without any of the
  rule keywords returns that last decision.
\<close>

theorem rule_based_tree:
  "ruleBasedClassification sender subject snippet =
     (let content = toLowerCase (subject @ '' '' @ snippet);
          academic = (endsWith sender ''@alaska.edu'' \<or> endsWith sender ''@ua.edu'')
      in if academic \<and> (includesStr content ''meeting'' \<or> includesStr content ''schedule'')
         then \<lparr> action = ''label'', label = Some ''Meetings'', confidence = 8 / 10,
                reason = ''Meeting related'' \<rparr>
         else if academic \<and> (includesStr content ''student'' \<or> includesStr content ''grade'')
         then \<lparr> action = ''label'', label = Some ''Students'', confidence = 8 / 10,
                reason = ''Student related'' \<rparr>
         else if academic \<and> (includesStr content ''department'' \<or> includesStr content ''faculty'')
         then \<lparr> action = ''label'', label = Some ''Department'', confidence = 7 / 10,
                reason = ''Department business'' \<rparr>
         else if includesStr content ''unsubscribe'' \<or> includesStr content ''newsletter''
         then \<lparr> action = ''label'', label = Some ''Newsletters'', confidence = 9 / 10,
                reason = ''Newsletter detected'' \<rparr>
         else \<lparr> action = ''keep'', label = None, confidence = 3 / 10,
                reason = ''No specific rule matched'' \<rparr>)
   \<and> (\<not> isVIP (CONFIG p) (extractSenderEmail (getFrom thr))
        \<and> \<not> isProtected (CONFIG p) (extractSenderEmail (getFrom thr))
        \<and> \<not> (\<exists>k \<in> set ruleKeywords.
                includesStr (toLowerCase (getFirstMessageSubject thr @ '' ''
                                           @ substring0 (getPlainBody thr) 500)) k)
       \<longrightarrow> classifyThread (CONFIG p) (Some emptyStatistics) thr
             = Inr \<lparr> action = ''keep'', label = None, confidence = 3 / 10,
                     reason = ''No specific rule matched'' \<rparr>)"
proof (intro conjI impI)
  show "ruleBasedClassification sender subject snippet =
     (let content = toLowerCase (subject @ '' '' @ snippet);
          academic = (endsWith sender ''@alaska.edu'' \<or> endsWith sender ''@ua.edu'')
      in if academic \<and> (includesStr content ''meeting'' \<or> includesStr content ''schedule'')
         then \<lparr> action = ''label'', label = Some ''Meetings'', confidence = 8 / 10,
                reason = ''Meeting related'' \<rparr>
         else if academic \<and> (includesStr content ''student'' \<or> includesStr content ''grade'')
         then \<lparr> action = ''label'', label = Some ''Students'', confidence = 8 / 10,
                reason = ''Student related'' \<rparr>
         else if academic \<and> (includesStr content ''department'' \<or> includesStr content ''faculty'')
         then \<lparr> action = ''label'', label = Some ''Department'', confidence = 7 / 10,
                reason = ''Department business'' \<rparr>
         else if includesStr content ''unsubscribe'' \<or> includesStr content ''newsletter''
         then \<lparr> action = ''label'', label = Some ''Newsletters'', confidence = 9 / 10,
                reason = ''Newsletter detected'' \<rparr>
         else \<lparr> action = ''keep'', label = None, confidence = 3 / 10,
                reason = ''No specific rule matched'' \<rparr>)"
    unfolding ruleBasedClassification_def academicRules_def generalRules_def Let_def
    by (cases "endsWith sender ''@alaska.edu'' \<or> endsWith sender ''@ua.edu''") simp_all
next
  let ?sender = "extractSenderEmail (getFrom thr)"
  let ?content = "toLowerCase (getFirstMessageSubject thr @ '' '' @ substring0 (getPlainBody thr) 500)"
  assume a: "\<not> isVIP (CONFIG p) ?sender \<and> \<not> isProtected (CONFIG p) ?sender
     \<and> \<not> (\<exists>k \<in> set ruleKeywords. includesStr ?content k)"
  then have none: "\<And>k. k \<in> set ruleKeywords \<Longrightarrow> \<not> includesStr ?content k" by blast
  have rules: "ruleBasedClassification ?sender (getFirstMessageSubject thr)
                  (substring0 (getPlainBody thr) 500)
        = \<lparr> action = ''keep'', label = None, confidence = 3 / 10,
            reason = ''No specific rule matched'' \<rparr>"
    using none by (simp add: rule_defs Let_def ruleKeywords_def)
  show "classifyThread (CONFIG p) (Some emptyStatistics) thr
      = Inr \<lparr> action = ''keep'', label = None, confidence = 3 / 10,
              reason = ''No specific rule matched'' \<rparr>"
    using a rules
    by (simp add: classifyThread_def classifyWithIntelligence_emptyStatistics
          noPatternMatch_def MEDIUM_CONFIDENCE_CONFIG)
qed

theorem rule_based_tree_witness:
  "\<not> isVIP (CONFIG noProps) (extractSenderEmail ''Pat <pat@example.com>'')
   \<and> \<not> isProtected (CONFIG noProps) (extractSenderEmail ''Pat <pat@example.com>'')
   \<and> \<not> (\<exists>k \<in> set ruleKeywords.
           includesStr (toLowerCase (''Lunch on Friday'' @ '' '' @ substring0 ''See you there.'' 500)) k)
   \<and> classifyThread (CONFIG noProps) (Some emptyStatistics)
        \<lparr> getFrom = ''Pat <pat@example.com>'', getFirstMessageSubject = ''Lunch on Friday'',
          getPlainBody = ''See you there.'', isStarred = False \<rparr>
      = Inr \<lparr> action = ''keep'', label = None, confidence = 3 / 10,
              reason = ''No specific rule matched'' \<rparr>"
proof -
  let ?thr = "\<lparr> getFrom = ''Pat <pat@example.com>'', getFirstMessageSubject = ''Lunch on Friday'',
                 getPlainBody = ''See you there.'', isStarred = False \<rparr>"
  have nv: "\<not> isVIP (CONFIG noProps) (extractSenderEmail ''Pat <pat@example.com>'')"
    by (simp add: isVIP_def CONFIG_noProps string_defs)
  have np: "\<not> isProtected (CONFIG noProps) (extractSenderEmail ''Pat <pat@example.com>'')"
    by (simp add: isProtected_def CONFIG_noProps string_defs)
  have nk: "\<not> (\<exists>k \<in> set ruleKeywords.
           includesStr (toLowerCase (''Lunch on Friday'' @ '' '' @ substring0 ''See you there.'' 500)) k)"
    by (simp add: ruleKeywords_def string_defs)
  from rule_based_tree [of "[]" "[]" "[]" noProps ?thr, THEN conjunct2] nv np nk
  have "classifyThread (CONFIG noProps) (Some emptyStatistics) ?thr
      = Inr \<lparr> action = ''keep'', label = None, confidence = 3 / 10,
              reason = ''No specific rule matched'' \<rparr>"
    by simp
  with nv np nk show ?thesis by blast
qed

text \<open>
  Claim C4 as stated fails without the condition on the sender: under the default
  configuration a thread of the dean, with empty statistics maps and no rule keyword in
  its text, is starred with confidence 1.
\<close>

theorem vip_without_keywords:
  "\<not> (\<exists>k \<in> set ruleKeywords.
         includesStr (toLowerCase (''Lunch on Friday'' @ '' '' @ substring0 ''See you there.'' 500)) k)
   \<and> classifyThread (CONFIG noProps) (Some emptyStatistics)
        \<lparr> getFrom = ''Dean <dean@alaska.edu>'', getFirstMessageSubject = ''Lunch on Friday'',
          getPlainBody = ''See you there.'', isStarred = False \<rparr>
      = Inr \<lparr> action = ''star'', label = Some ''VIP'', confidence = 1, reason = ''VIP sender'' \<rparr>
   \<and> classifyThread (CONFIG noProps) (Some emptyStatistics)
        \<lparr> getFrom = ''Dean <dean@alaska.edu>'', getFirstMessageSubject = ''Lunch on Friday'',
          getPlainBody = ''See you there.'', isStarred = False \<rparr>
      \<noteq> Inr \<lparr> action = ''keep'', label = None, confidence = 3 / 10,
               reason = ''No specific rule matched'' \<rparr>"
  by (simp add: classifyThread_def isVIP_def vipDecision_def CONFIG_noProps ruleKeywords_def
        string_defs)

text \<open>
  Claim C5, as amended. Without a statistics bundle, a thread from \<^verbatim>\<open>x@alaska.edu\<close> with
  the subject "Meeting tomorrow" is labelled Meetings with confidence 0.8, whatever its
  body is, under every configuration in which that sender is neither VIP nor protected.
\<close>

theorem meeting_fallback:
  assumes "\<not> isVIP cfg ''x@alaska.edu''" and "\<not> isProtected cfg ''x@alaska.edu''"
  shows "classifyThread cfg None
           \<lparr> getFrom = ''x@alaska.edu'', getFirstMessageSubject = ''Meeting tomorrow'',
             getPlainBody = body, isStarred = starred \<rparr>
         = Inr \<lparr> action = ''label'', label = Some ''Meetings'', confidence = 8 / 10,
                 reason = ''Meeting related'' \<rparr>"
proof -
  have sender: "extractSenderEmail ''x@alaska.edu'' = ''x@alaska.edu''"
    by (simp add: string_defs)
  have academic: "endsWith ''x@alaska.edu'' ''@alaska.edu''"
    by (simp add: string_defs)
  have meeting: "includesStr (toLowerCase (''Meeting tomorrow'' @ '' '' @ substring0 body 500))
                   ''meeting''"
    by (simp add: string_defs)
  show ?thesis
    using assms academic meeting
    by (simp add: classifyThread_def sender rule_defs Let_def)
qed

theorem meeting_fallback_witness:
  "\<not> isVIP (CONFIG openProps) ''x@alaska.edu''
   \<and> \<not> isProtected (CONFIG openProps) ''x@alaska.edu''
   \<and> classifyThread (CONFIG openProps) None
        \<lparr> getFrom = ''x@alaska.edu'', getFirstMessageSubject = ''Meeting tomorrow'',
          getPlainBody = ''See the agenda.'', isStarred = False \<rparr>
      = Inr \<lparr> action = ''label'', label = Some ''Meetings'', confidence = 8 / 10,
              reason = ''Meeting related'' \<rparr>"
proof -
  have nv: "\<not> isVIP (CONFIG openProps) ''x@alaska.edu''"
    by (simp add: isVIP_def CONFIG_openProps string_defs)
  have np: "\<not> isProtected (CONFIG openProps) ''x@alaska.edu''"
    by (simp add: isProtected_def CONFIG_openProps string_defs)
  from meeting_fallback [OF nv np, of "''See the agenda.''" False] nv np
  show ?thesis by blast
qed

text \<open>
  Claim C5 as stated fails under the configuration the script has when no property is
  set: \<^verbatim>\<open>alaska.edu\<close> is a VIP domain there, and the thread is starred.
\<close>

theorem meeting_default_configuration:
  "classifyThread (CONFIG noProps) None
        \<lparr> getFrom = ''x@alaska.edu'', getFirstMessageSubject = ''Meeting tomorrow'',
          getPlainBody = [], isStarred = False \<rparr>
      = Inr \<lparr> action = ''star'', label = Some ''VIP'', confidence = 1, reason = ''VIP sender'' \<rparr>
   \<and> classifyThread (CONFIG noProps) None
        \<lparr> getFrom = ''x@alaska.edu'', getFirstMessageSubject = ''Meeting tomorrow'',
          getPlainBody = [], isStarred = False \<rparr>
      \<noteq> Inr \<lparr> action = ''label'', label = Some ''Meetings'', confidence = 8 / 10,
               reason = ''Meeting related'' \<rparr>"
  by (simp add: classifyThread_def isVIP_def vipDecision_def CONFIG_noProps string_defs)

subsection \<open>Bounds on the confidence\<close>

lemma bestLoop_nonneg:
  "bestLoop es (bl, bs) = (bl', bs') \<Longrightarrow> 0 \<le> bs \<Longrightarrow> 0 \<le> bs'"
proof (induction es arbitrary: bl bs)
  case Nil
  then show ?case by simp
next
  case (Cons e es)
  obtain lbl score where e: "e = (lbl, score)" by (cases e)
  show ?case
  proof (cases score)
    case (Number s)
    show ?thesis
    proof (cases "s > bs")
      case True
      with Cons.prems e Number have "bestLoop es (Some lbl, s) = (bl', bs')" by simp
      moreover from True Cons.prems(2) have "0 \<le> s" by simp
      ultimately show ?thesis by (rule Cons.IH)
    next
      case False
      with Cons.prems e Number have "bestLoop es (bl, bs) = (bl', bs')" by simp
      then show ?thesis using Cons.prems(2) by (rule Cons.IH)
    qed
  next
    case Text
    with Cons.prems e have "bestLoop es (bl, bs) = (bl', bs')" by simp
    then show ?thesis using Cons.prems(2) by (rule Cons.IH)
  qed
qed

lemma ratio_in_unit:
  fixes b t :: real
  assumes "0 \<le> b" and "0 < t"
  shows "0 \<le> min (b / t) 1 \<and> min (b / t) 1 \<le> 1"
  using assms by simp

lemma classifyWithIntelligence_cases:
  assumes "classifyWithIntelligence i sender subject snippet = Inr d"
  shows "d = noPatternMatch
       \<or> (\<exists>sp scoreMap totalWeight lbl bestScore.
             senderProfiles i = Some sp
           \<and> keywordLoop (toLowerCase (subject @ '' '' @ snippet))
                 (objectEntries (case keywordProfiles i of None \<Rightarrow> [] | Some kp \<Rightarrow> kp))
                 (senderStep sp sender) = (scoreMap, totalWeight)
           \<and> bestLoop (objectEntries scoreMap) (None, 0) = (Some lbl, bestScore)
           \<and> lbl \<noteq> [] \<and> 0 < totalWeight
           \<and> d = \<lparr> action = ''label'', label = Some lbl,
                     confidence = min (bestScore / totalWeight) 1,
                     reason = ''Historical pattern match'' \<rparr>)"
  using assms
  by (auto simp: classifyWithIntelligence_def Let_def split: option.splits prod.splits if_splits)

lemma classifyWithIntelligence_confidence:
  assumes "classifyWithIntelligence i sender subject snippet = Inr d"
  shows "0 \<le> confidence d \<and> confidence d \<le> 1"
proof -
  from classifyWithIntelligence_cases [OF assms]
  show ?thesis
  proof (elim disjE exE conjE)
    assume "d = noPatternMatch"
    then show ?thesis by (simp add: noPatternMatch_def)
  next
    fix sp scoreMap totalWeight lbl bestScore
    assume best: "bestLoop (objectEntries scoreMap) (None, 0) = (Some lbl, bestScore)"
      and pos: "0 < totalWeight"
      and d: "d = \<lparr> action = ''label'', label = Some lbl,
                     confidence = min (bestScore / totalWeight) 1,
                     reason = ''Historical pattern match'' \<rparr>"
    from bestLoop_nonneg [OF best] have "0 \<le> bestScore" by simp
    with pos d show ?thesis using ratio_in_unit [of bestScore totalWeight] by simp
  qed
qed

lemma ruleBasedClassification_confidence:
  "0 \<le> confidence (ruleBasedClassification sender subject snippet)
   \<and> confidence (ruleBasedClassification sender subject snippet) \<le> 1"
  by (simp add: rule_defs Let_def)

lemma classifyThread_cases:
  assumes "classifyThread cfg intel thr = Inr d"
  shows "d = vipDecision \<or> d = protectedDecision
       \<or> d = ruleBasedClassification (extractSenderEmail (getFrom thr))
                (getFirstMessageSubject thr) (substring0 (getPlainBody thr) 500)
       \<or> (\<exists>i. intel = Some i
             \<and> classifyWithIntelligence i (extractSenderEmail (getFrom thr))
                  (getFirstMessageSubject thr) (substring0 (getPlainBody thr) 500) = Inr d)"
  using assms
  by (auto simp: classifyThread_def Let_def split: if_splits option.splits sum.splits)

lemma classifyWithIntelligence_error:
  assumes "classifyWithIntelligence i sender subject snippet = Inl e"
  shows "senderProfiles i = None"
  using assms
  by (auto simp: classifyWithIntelligence_def Let_def split: option.splits prod.splits if_splits)

lemma classifyThread_error:
  assumes "classifyThread cfg intel thr = Inl e"
  shows "\<exists>i. intel = Some i \<and> senderProfiles i = None"
proof -
  from assms obtain i where i: "intel = Some i"
    and cw: "classifyWithIntelligence i (extractSenderEmail (getFrom thr))
           (getFirstMessageSubject thr) (substring0 (getPlainBody thr) 500) = Inl e"
    by (auto simp: classifyThread_def Let_def split: if_splits option.splits sum.splits)
  from cw have "senderProfiles i = None"
    by (rule classifyWithIntelligence_error)
  with i show ?thesis by blast
qed

text \<open>
  Claim C6. Whenever \<^verbatim>\<open>classifyThread\<close> returns a decision, its confidence lies between 0
  and 1; it returns one for every thread, every configuration and every bundle, except
  that a bundle without sender profiles makes it raise. The scorer raises only for such a
  bundle, and its result is either "No pattern match" with confidence 0 or carries the
  confidence \<^verbatim>\<open>min(bestScore / totalWeight, 1)\<close>, which is computed only when
  \<^verbatim>\<open>totalWeight\<close> is positive and never exceeds 1.
\<close>

theorem confidence_bounds:
  "(case classifyThread cfg intel thr of
      Inr d \<Rightarrow> 0 \<le> confidence d \<and> confidence d \<le> 1
    | Inl e \<Rightarrow> \<exists>i. intel = Some i \<and> senderProfiles i = None)
   \<and> (case classifyWithIntelligence i sender subject snippet of
        Inr d \<Rightarrow>
          0 \<le> confidence d \<and> confidence d \<le> 1
          \<and> (d = noPatternMatch
              \<or> (\<exists>sp scoreMap totalWeight lbl bestScore.
                    senderProfiles i = Some sp
                  \<and> keywordLoop (toLowerCase (subject @ '' '' @ snippet))
                        (objectEntries (case keywordProfiles i of None \<Rightarrow> [] | Some kp \<Rightarrow> kp))
                        (senderStep sp sender) = (scoreMap, totalWeight)
                  \<and> bestLoop (objectEntries scoreMap) (None, 0) = (Some lbl, bestScore)
                  \<and> 0 < totalWeight
                  \<and> confidence d = min (bestScore / totalWeight) 1))
      | Inl e \<Rightarrow> senderProfiles i = None)"
proof (rule conjI)
  show "case classifyThread cfg intel thr of
      Inr d \<Rightarrow> 0 \<le> confidence d \<and> confidence d \<le> 1
    | Inl e \<Rightarrow> \<exists>i. intel = Some i \<and> senderProfiles i = None"
  proof (cases "classifyThread cfg intel thr")
    case (Inl e)
    then show ?thesis using classifyThread_error by simp
  next
    case (Inr d)
    from classifyThread_cases [OF Inr]
    have "0 \<le> confidence d \<and> confidence d \<le> 1"
      using classifyWithIntelligence_confidence ruleBasedClassification_confidence
      by (auto simp: vipDecision_def protectedDecision_def)
    with Inr show ?thesis by simp
  qed
next
  show "case classifyWithIntelligence i sender subject snippet of
        Inr d \<Rightarrow>
          0 \<le> confidence d \<and> confidence d \<le> 1
          \<and> (d = noPatternMatch
              \<or> (\<exists>sp scoreMap totalWeight lbl bestScore.
                    senderProfiles i = Some sp
                  \<and> keywordLoop (toLowerCase (subject @ '' '' @ snippet))
                        (objectEntries (case keywordProfiles i of None \<Rightarrow> [] | Some kp \<Rightarrow> kp))
                        (senderStep sp sender) = (scoreMap, totalWeight)
                  \<and> bestLoop (objectEntries scoreMap) (None, 0) = (Some lbl, bestScore)
                  \<and> 0 < totalWeight
                  \<and> confidence d = min (bestScore / totalWeight) 1))
      | Inl e \<Rightarrow> senderProfiles i = None"
  proof (cases "classifyWithIntelligence i sender subject snippet")
    case (Inl e)
    then have "senderProfiles i = None"
      by (rule classifyWithIntelligence_error)
    with Inl show ?thesis by simp
  next
    case (Inr d)
    from classifyWithIntelligence_cases [OF Inr] classifyWithIntelligence_confidence [OF Inr]
    have "0 \<le> confidence d \<and> confidence d \<le> 1
          \<and> (d = noPatternMatch
              \<or> (\<exists>sp scoreMap totalWeight lbl bestScore.
                    senderProfiles i = Some sp
                  \<and> keywordLoop (toLowerCase (subject @ '' '' @ snippet))
                        (objectEntries (case keywordProfiles i of None \<Rightarrow> [] | Some kp \<Rightarrow> kp))
                        (senderStep sp sender) = (scoreMap, totalWeight)
                  \<and> bestLoop (objectEntries scoreMap) (None, 0) = (Some lbl, bestScore)
                  \<and> 0 < totalWeight
                  \<and> confidence d = min (bestScore / totalWeight) 1))"
      by auto
    with Inr show ?thesis by simp
  qed
qed

theorem confidence_bounds_witness:
  "(\<exists>d. classifyThread (CONFIG noProps) (Some threeKeywords)
          \<lparr> getFrom = ''Shop <shop@example.com>'', getFirstMessageSubject = ''Sale invoice'',
            getPlainBody = ''The invoice of the sale.'', isStarred = False \<rparr> = Inr d
        \<and> d = \<lparr> action = ''label'', label = Some ''Promotions'', confidence = 1 / 2,
                  reason = ''Historical pattern match'' \<rparr>
        \<and> 0 \<le> confidence d \<and> confidence d \<le> 1)
   \<and> keywordLoop (toLowerCase (''Sale invoice'' @ '' '' @ ''The invoice of the sale.''))
        (objectEntries
           [(''sale'', \<lparr> keywordCount = 50, commonLabel = ''Promotions'', weight = 1 / 2 \<rparr>),
            (''invoice'', \<lparr> keywordCount = 50, commonLabel = ''Finance'', weight = 1 / 2 \<rparr>),
            (''order'', \<lparr> keywordCount = 50, commonLabel = ''Orders'', weight = 1 / 2 \<rparr>)])
        (senderStep [] ''shop@example.com'')
      = ([(''Promotions'', Number (3 / 20)), (''Finance'', Number (3 / 20))], 3 / 10)
   \<and> bestLoop (objectEntries [(''Promotions'', Number (3 / 20)), (''Finance'', Number (3 / 20))])
        (None, 0) = (Some ''Promotions'', 3 / 20)
   \<and> min ((3 / 20) / (3 / 10)) 1 = (1 / 2 :: real)"
proof -
  let ?thr = "\<lparr> getFrom = ''Shop <shop@example.com>'', getFirstMessageSubject = ''Sale invoice'',
                 getPlainBody = ''The invoice of the sale.'', isStarred = False \<rparr>"
  let ?d = "\<lparr> action = ''label'', label = Some ''Promotions'', confidence = 1 / 2,
               reason = ''Historical pattern match'' \<rparr>"
  have ev: "classifyThread (CONFIG noProps) (Some threeKeywords) ?thr = Inr ?d"
    by (simp add: classifyThread_def isVIP_def isProtected_def CONFIG_noProps threeKeywords_def
          scorer_defs string_defs)
  from confidence_bounds [where cfg = "CONFIG noProps" and intel = "Some threeKeywords"
      and thr = ?thr, THEN conjunct1] ev
  have range: "0 \<le> confidence ?d \<and> confidence ?d \<le> 1" by simp
  have loop: "keywordLoop (toLowerCase (''Sale invoice'' @ '' '' @ ''The invoice of the sale.''))
        (objectEntries
           [(''sale'', \<lparr> keywordCount = 50, commonLabel = ''Promotions'', weight = 1 / 2 \<rparr>),
            (''invoice'', \<lparr> keywordCount = 50, commonLabel = ''Finance'', weight = 1 / 2 \<rparr>),
            (''order'', \<lparr> keywordCount = 50, commonLabel = ''Orders'', weight = 1 / 2 \<rparr>)])
        (senderStep [] ''shop@example.com'')
      = ([(''Promotions'', Number (3 / 20)), (''Finance'', Number (3 / 20))], 3 / 10)"
    by (simp add: scorer_defs string_defs)
  have best: "bestLoop
        (objectEntries [(''Promotions'', Number (3 / 20)), (''Finance'', Number (3 / 20))])
        (None, 0) = (Some ''Promotions'', 3 / 20)"
    by (simp add: scorer_defs)
  have ratio: "min ((3 / 20) / (3 / 10)) 1 = (1 / 2 :: real)" by simp
  from ev range have "\<exists>d. classifyThread (CONFIG noProps) (Some threeKeywords) ?thr = Inr d
      \<and> d = ?d \<and> 0 \<le> confidence d \<and> confidence d \<le> 1"
    by blast
  with loop best ratio show ?thesis by blast
qed

subsection \<open>Malformed bundles\<close>

text \<open>
  Claim C7 fails on the code. For a sender that is neither VIP nor protected, a bundle
  without \<^verbatim>\<open>senderProfiles\<close> makes \<^verbatim>\<open>classifyThread\<close> raise a \<^verbatim>\<open>TypeError\<close>, while a bundle
  without \<^verbatim>\<open>keywordProfiles\<close> is read as one with no keyword, as the claim wants for both.
\<close>

theorem missing_senderProfiles_throws:
  "classifyThread (CONFIG noProps) (Some \<lparr> senderProfiles = None, keywordProfiles = Some [] \<rparr>)
        \<lparr> getFrom = ''Pat <pat@example.com>'', getFirstMessageSubject = ''Lunch on Friday'',
          getPlainBody = ''See you there.'', isStarred = False \<rparr>
      = Inl TypeError
   \<and> classifyThread (CONFIG noProps) (Some \<lparr> senderProfiles = Some [], keywordProfiles = None \<rparr>)
        \<lparr> getFrom = ''Pat <pat@example.com>'', getFirstMessageSubject = ''Lunch on Friday'',
          getPlainBody = ''See you there.'', isStarred = False \<rparr>
      = Inr \<lparr> action = ''keep'', label = None, confidence = 3 / 10,
              reason = ''No specific rule matched'' \<rparr>"
  by (simp add: classifyThread_def isVIP_def isProtected_def CONFIG_noProps scorer_defs
        string_defs rule_defs)

text \<open>The only way for \<^verbatim>\<open>classifyThread\<close> to raise.\<close>

lemma classifyThread_throws_iff:
  "classifyThread cfg intel thr = Inl TypeError \<longleftrightarrow>
     \<not> isVIP cfg (extractSenderEmail (getFrom thr))
   \<and> \<not> isProtected cfg (extractSenderEmail (getFrom thr))
   \<and> (\<exists>i. intel = Some i \<and> senderProfiles i = None)"
proof
  assume t: "classifyThread cfg intel thr = Inl TypeError"
  then have "\<not> isVIP cfg (extractSenderEmail (getFrom thr))
           \<and> \<not> isProtected cfg (extractSenderEmail (getFrom thr))"
    by (auto simp: classifyThread_def Let_def split: if_splits)
  with classifyThread_error [OF t]
  show "\<not> isVIP cfg (extractSenderEmail (getFrom thr))
   \<and> \<not> isProtected cfg (extractSenderEmail (getFrom thr))
   \<and> (\<exists>i. intel = Some i \<and> senderProfiles i = None)" by blast
next
  assume "\<not> isVIP cfg (extractSenderEmail (getFrom thr))
   \<and> \<not> isProtected cfg (extractSenderEmail (getFrom thr))
   \<and> (\<exists>i. intel = Some i \<and> senderProfiles i = None)"
  then show "classifyThread cfg intel thr = Inl TypeError"
    by (auto simp: classifyThread_def classifyWithIntelligence_def)
qed

subsection \<open>The actions\<close>

lemma classifyWithIntelligence_action:
  assumes "classifyWithIntelligence i sender subject snippet = Inr d"
  shows "action d = ''label'' \<or> action d = ''keep''"
  using classifyWithIntelligence_cases [OF assms] by (auto simp: noPatternMatch_def)

lemma ruleBasedClassification_action:
  "action (ruleBasedClassification sender subject snippet) = ''label''
   \<or> action (ruleBasedClassification sender subject snippet) = ''keep''"
  by (simp add: rule_defs Let_def)

lemma classifyThread_action:
  assumes "classifyThread cfg intel thr = Inr d"
  shows "action d = ''star'' \<or> action d = ''keep'' \<or> action d = ''label''"
proof -
  from classifyThread_cases [OF assms] show ?thesis
  proof (elim disjE exE conjE)
    assume "d = vipDecision"
    then show ?thesis by (simp add: vipDecision_def)
  next
    assume "d = protectedDecision"
    then show ?thesis by (simp add: protectedDecision_def)
  next
    assume "d = ruleBasedClassification (extractSenderEmail (getFrom thr))
                  (getFirstMessageSubject thr) (substring0 (getPlainBody thr) 500)"
    then show ?thesis using ruleBasedClassification_action by blast
  next
    fix i
    assume "classifyWithIntelligence i (extractSenderEmail (getFrom thr))
              (getFirstMessageSubject thr) (substring0 (getPlainBody thr) 500) = Inr d"
    then show ?thesis using classifyWithIntelligence_action by blast
  qed
qed

lemma archive_only_after_label:
  assumes "MoveToArchive \<in> set (applyDecision cfg thr d)"
    and "action d \<noteq> ''archive''"
  shows "action d = ''label''"
  using assms
  by (auto simp: applyDecision_def productionSwitch_def split: if_splits option.splits)

text \<open>
  Claim C9. The action of every decision \<^verbatim>\<open>classifyThread\<close> returns is star, keep or label,
  never archive; and when the loop of \<^verbatim>\<open>processInbox\<close> archives a thread, the decision for
  that thread has the action label.
\<close>

theorem never_archive:
  "(\<forall>d. classifyThread cfg intel thr = Inr d \<longrightarrow>
         action d \<in> {''star'', ''keep'', ''label''} \<and> action d \<noteq> ''archive'')
   \<and> (MoveToArchive \<in> set (processThread cfg intel thr) \<longrightarrow>
        (\<exists>d. classifyThread cfg intel thr = Inr d \<and> action d = ''label''))"
proof (intro conjI allI impI)
  fix d
  assume "classifyThread cfg intel thr = Inr d"
  from classifyThread_action [OF this]
  show "action d \<in> {''star'', ''keep'', ''label''}" by auto
next
  fix d
  assume "classifyThread cfg intel thr = Inr d"
  from classifyThread_action [OF this]
  show "action d \<noteq> ''archive''" by auto
next
  assume m: "MoveToArchive \<in> set (processThread cfg intel thr)"
  then obtain d where d: "classifyThread cfg intel thr = Inr d"
    by (cases "classifyThread cfg intel thr") (auto simp: processThread_def)
  with m have "MoveToArchive \<in> set (applyDecision cfg thr d)"
    by (simp add: processThread_def)
  moreover from classifyThread_action [OF d] have "action d \<noteq> ''archive''" by auto
  ultimately have "action d = ''label''" by (rule archive_only_after_label)
  with d show "\<exists>d. classifyThread cfg intel thr = Inr d \<and> action d = ''label''" by blast
qed

theorem never_archive_witness:
  "MoveToArchive \<in> set (processThread (CONFIG noProps) None
        \<lparr> getFrom = ''News <news@shop.example.com>'', getFirstMessageSubject = ''Weekly newsletter'',
          getPlainBody = ''Click here to unsubscribe.'', isStarred = False \<rparr>)
   \<and> classifyThread (CONFIG noProps) None
        \<lparr> getFrom = ''News <news@shop.example.com>'', getFirstMessageSubject = ''Weekly newsletter'',
          getPlainBody = ''Click here to unsubscribe.'', isStarred = False \<rparr>
      = Inr \<lparr> action = ''label'', label = Some ''Newsletters'', confidence = 9 / 10,
              reason = ''Newsletter detected'' \<rparr>
   \<and> action \<lparr> action = ''label'', label = Some ''Newsletters'', confidence = 9 / 10,
              reason = ''Newsletter detected'' \<rparr> \<in> {''star'', ''keep'', ''label''}"
proof -
  let ?thr = "\<lparr> getFrom = ''News <news@shop.example.com>'',
                 getFirstMessageSubject = ''Weekly newsletter'',
                 getPlainBody = ''Click here to unsubscribe.'', isStarred = False \<rparr>"
  let ?d = "\<lparr> action = ''label'', label = Some ''Newsletters'', confidence = 9 / 10,
               reason = ''Newsletter detected'' \<rparr>"
  have ev: "classifyThread (CONFIG noProps) None ?thr = Inr ?d"
    by (simp add: classifyThread_def isVIP_def isProtected_def CONFIG_noProps string_defs
          rule_defs)
  have "processThread (CONFIG noProps) None ?thr = applyDecision (CONFIG noProps) ?thr ?d"
    by (simp only: processThread_def ev sum.case)
  also have "\<dots> = [AddLabel ''Newsletters'', MoveToArchive, AddLabel ''_Triage/Processed'']"
    by (simp add: applyDecision_def productionSwitch_def CONFIG_noProps string_defs)
  finally have mv: "MoveToArchive \<in> set (processThread (CONFIG noProps) None ?thr)"
    by simp
  from never_archive [where cfg = "CONFIG noProps" and intel = None and thr = ?thr,
      THEN conjunct1, rule_format, OF ev]
  have "action ?d \<in> {''star'', ''keep'', ''label''}" by simp
  with ev mv show ?thesis by blast
qed

subsection \<open>Letter case\<close>

lemma toLowerCaseChar_fixed:
  "c \<notin> set ''ABCDEFGHIJKLMNOPQRSTUVWXYZ'' \<Longrightarrow> toLowerCaseChar c = c"
  by (simp add: toLowerCaseChar_def)

lemma toLowerCaseChar_upper:
  "c \<in> set ''ABCDEFGHIJKLMNOPQRSTUVWXYZ''
     \<Longrightarrow> toLowerCaseChar c \<in> set ''abcdefghijklmnopqrstuvwxyz''"
  by (auto simp: toLowerCaseChar_def)

lemma toLowerCaseChar_idem: "toLowerCaseChar (toLowerCaseChar c) = toLowerCaseChar c"
proof (cases "c \<in> set ''ABCDEFGHIJKLMNOPQRSTUVWXYZ''")
  case True
  from toLowerCaseChar_upper [OF True]
  have "toLowerCaseChar c \<notin> set ''ABCDEFGHIJKLMNOPQRSTUVWXYZ''" by auto
  then show ?thesis by (rule toLowerCaseChar_fixed)
next
  case False
  then show ?thesis by (simp add: toLowerCaseChar_fixed)
qed

lemma toLowerCase_idem: "toLowerCase (toLowerCase s) = toLowerCase s"
  by (simp add: toLowerCase_def toLowerCaseChar_idem)

lemma toLowerCaseChar_eq_special:
  assumes "x \<notin> set ''ABCDEFGHIJKLMNOPQRSTUVWXYZ''"
    and "x \<notin> set ''abcdefghijklmnopqrstuvwxyz''"
  shows "toLowerCaseChar c = x \<longleftrightarrow> c = x"
proof
  assume eq: "toLowerCaseChar c = x"
  show "c = x"
  proof (cases "c \<in> set ''ABCDEFGHIJKLMNOPQRSTUVWXYZ''")
    case True
    from toLowerCaseChar_upper [OF True] eq assms(2) show ?thesis by simp
  next
    case False
    with eq show ?thesis by (simp add: toLowerCaseChar_fixed)
  qed
next
  assume "c = x"
  with assms(1) show "toLowerCaseChar c = x" by (simp add: toLowerCaseChar_fixed)
qed

lemma toLowerCaseChar_gt [simp]: "toLowerCaseChar c = CHR ''>'' \<longleftrightarrow> c = CHR ''>''"
  by (rule toLowerCaseChar_eq_special) simp_all

lemma toLowerCaseChar_lt [simp]: "toLowerCaseChar c = CHR ''<'' \<longleftrightarrow> c = CHR ''<''"
  by (rule toLowerCaseChar_eq_special) simp_all

lemma isLineTerminator_toLowerCaseChar [simp]:
  "isLineTerminator (toLowerCaseChar c) = isLineTerminator c"
  unfolding isLineTerminator_def
  by (simp add: toLowerCaseChar_eq_special)

lemma lazyUntilGt_lower:
  "lazyUntilGt (map toLowerCaseChar s) = map_option (map toLowerCaseChar) (lazyUntilGt s)"
  by (induction s) (simp_all add: option.map_comp comp_def)

lemma matchHere_lower:
  "matchHere (map toLowerCaseChar s) = map_option (map toLowerCaseChar) (matchHere s)"
proof (cases s rule: matchHere.cases)
  case (1 a c cs)
  then show ?thesis by (simp add: lazyUntilGt_lower option.map_comp comp_def)
qed simp_all

lemma matchAngle_lower:
  "matchAngle (map toLowerCaseChar s) = map_option (map toLowerCaseChar) (matchAngle s)"
proof (induction s)
  case Nil
  then show ?case by simp
next
  case (Cons a s)
  have "matchHere (map toLowerCaseChar (a # s))
          = map_option (map toLowerCaseChar) (matchHere (a # s))"
    by (rule matchHere_lower)
  with Cons show ?case
    by (cases "matchHere (a # s)") simp_all
qed

lemma extractSenderEmail_lower:
  "extractSenderEmail (toLowerCase f) = extractSenderEmail f"
  unfolding extractSenderEmail_def toLowerCase_def
  by (cases "matchAngle f") (simp_all add: matchAngle_lower toLowerCaseChar_idem)

lemma extractSenderEmail_is_lower:
  "toLowerCase (extractSenderEmail f) = extractSenderEmail f"
  unfolding extractSenderEmail_def
  by (cases "matchAngle f") (simp_all add: toLowerCase_idem)

lemma extractSenderEmail_case_variant:
  assumes "toLowerCase f = toLowerCase f'"
  shows "extractSenderEmail f = extractSenderEmail f'"
proof -
  have "extractSenderEmail f = extractSenderEmail (toLowerCase f)"
    by (simp add: extractSenderEmail_lower)
  also have "\<dots> = extractSenderEmail (toLowerCase f')" using assms by simp
  also have "\<dots> = extractSenderEmail f'" by (rule extractSenderEmail_lower)
  finally show ?thesis .
qed

lemma endsWith_iff: "endsWith s t \<longleftrightarrow> (\<exists>p. s = p @ t)"
  by (simp add: endsWith_def suffix_def)

lemma lower_suffix:
  assumes "toLowerCase s = s" and "endsWith s (c # t)"
  shows "toLowerCase t = t"
proof -
  from assms(2) obtain p where s: "s = p @ c # t" by (auto simp: endsWith_iff)
  with assms(1) have "map toLowerCaseChar p @ toLowerCaseChar c # map toLowerCaseChar t = p @ c # t"
    by (simp add: toLowerCase_def)
  then have "toLowerCaseChar c # map toLowerCaseChar t = c # t"
    by (simp add: append_eq_append_conv)
  then show ?thesis by (simp add: toLowerCase_def)
qed

text \<open>
  What the membership checks do ensure. Two sender headers with the same lower-case form
  (over the letters A to Z, the ones \<^verbatim>\<open>toLowerCase\<close> maps here) get the same VIP and the
  same protected result. A configured sender matches when it equals the normalised
  sender, and a configured domain matches exactly when the normalised sender ends with
  the literal string \<^verbatim>\<open>@\<close> followed by the domain. An entry that is not in lower case
  matches no normalised sender, as an address or as a domain.
\<close>

theorem membership_case:
  "(toLowerCase f = toLowerCase f' \<longrightarrow>
        isVIP cfg (extractSenderEmail f) = isVIP cfg (extractSenderEmail f')
      \<and> isProtected cfg (extractSenderEmail f) = isProtected cfg (extractSenderEmail f'))
   \<and> (isVIP cfg sender \<longleftrightarrow>
         sender \<in> set (VIP_SENDERS cfg)
       \<or> (\<exists>domain \<in> set (VIP_DOMAINS cfg). \<exists>p. sender = p @ ''@'' @ domain))
   \<and> (isProtected cfg sender \<longleftrightarrow>
         sender \<in> set (KEEP_SENDERS cfg)
       \<or> (\<exists>domain \<in> set (KEEP_DOMAINS cfg). \<exists>p. sender = p @ ''@'' @ domain))
   \<and> (toLowerCase entry \<noteq> entry \<longrightarrow>
         extractSenderEmail f \<noteq> entry
       \<and> \<not> endsWith (extractSenderEmail f) (''@'' @ entry))"
proof (intro conjI impI)
  assume "toLowerCase f = toLowerCase f'"
  then have eq: "extractSenderEmail f = extractSenderEmail f'"
    by (rule extractSenderEmail_case_variant)
  then show "isVIP cfg (extractSenderEmail f) = isVIP cfg (extractSenderEmail f')" by simp
  from eq show "isProtected cfg (extractSenderEmail f) = isProtected cfg (extractSenderEmail f')"
    by simp
next
  show "isVIP cfg sender \<longleftrightarrow>
         sender \<in> set (VIP_SENDERS cfg)
       \<or> (\<exists>domain \<in> set (VIP_DOMAINS cfg). \<exists>p. sender = p @ ''@'' @ domain)"
    by (simp add: isVIP_iff endsWith_iff)
next
  show "isProtected cfg sender \<longleftrightarrow>
         sender \<in> set (KEEP_SENDERS cfg)
       \<or> (\<exists>domain \<in> set (KEEP_DOMAINS cfg). \<exists>p. sender = p @ ''@'' @ domain)"
    by (simp add: isProtected_iff endsWith_iff)
next
  assume up: "toLowerCase entry \<noteq> entry"
  then show "extractSenderEmail f \<noteq> entry"
    using extractSenderEmail_is_lower [of f] by auto
next
  assume up: "toLowerCase entry \<noteq> entry"
  show "\<not> endsWith (extractSenderEmail f) (''@'' @ entry)"
  proof
    assume "endsWith (extractSenderEmail f) (''@'' @ entry)"
    then have "endsWith (extractSenderEmail f) (CHR ''@'' # entry)" by simp
    with extractSenderEmail_is_lower [of f] have "toLowerCase entry = entry"
      by (rule lower_suffix)
    with up show False by simp
  qed
qed

lemma CONFIG_mixedCaseProps:
  "CONFIG mixedCaseProps =
     \<lparr> VIP_SENDERS = [''Boss@Example.com''],
       VIP_DOMAINS = [''example.org''],
       KEEP_SENDERS = [],
       KEEP_DOMAINS = [''Partner.Example.com''],
       DRY_RUN = False, PREVIEW_MODE = False,
       HIGH_CONFIDENCE = 8 / 10, MEDIUM_CONFIDENCE = 5 / 10 \<rparr>"
  by (simp add: mixedCaseProps_def props_defs)

lemma CONFIG_lowerCaseProps:
  "CONFIG lowerCaseProps =
     \<lparr> VIP_SENDERS = [''boss@example.com''],
       VIP_DOMAINS = [''example.org''],
       KEEP_SENDERS = [],
       KEEP_DOMAINS = [''partner.example.com''],
       DRY_RUN = False, PREVIEW_MODE = False,
       HIGH_CONFIDENCE = 8 / 10, MEDIUM_CONFIDENCE = 5 / 10 \<rparr>"
  by (simp add: lowerCaseProps_def props_defs)

theorem membership_case_witness:
  "toLowerCase ''The Boss <Boss@Example.com>'' = toLowerCase ''the boss <BOSS@EXAMPLE.COM>''
   \<and> isVIP (CONFIG lowerCaseProps) (extractSenderEmail ''The Boss <Boss@Example.com>'')
   \<and> isVIP (CONFIG lowerCaseProps) (extractSenderEmail ''the boss <BOSS@EXAMPLE.COM>'')
   \<and> toLowerCase ''Boss@Example.com'' \<noteq> ''Boss@Example.com''
   \<and> extractSenderEmail ''The Boss <Boss@Example.com>'' \<noteq> ''Boss@Example.com''
   \<and> \<not> endsWith (extractSenderEmail ''The Boss <Boss@Example.com>'') (''@'' @ ''Boss@Example.com'')"
proof -
  let ?f = "''The Boss <Boss@Example.com>''" and ?f' = "''the boss <BOSS@EXAMPLE.COM>''"
  have variants: "toLowerCase ?f = toLowerCase ?f'"
    by (simp add: toLowerCase_def toLowerCaseChar_def)
  have vip: "isVIP (CONFIG lowerCaseProps) (extractSenderEmail ?f)"
    by (simp add: isVIP_def CONFIG_lowerCaseProps string_defs)
  have upper: "toLowerCase ''Boss@Example.com'' \<noteq> ''Boss@Example.com''"
    by (simp add: toLowerCase_def toLowerCaseChar_def)
  note m = membership_case [where f = ?f and f' = ?f' and cfg = "CONFIG lowerCaseProps"
      and entry = "''Boss@Example.com''"]
  from m variants vip have "isVIP (CONFIG lowerCaseProps) (extractSenderEmail ?f')" by blast
  moreover from m upper have "extractSenderEmail ?f \<noteq> ''Boss@Example.com''
      \<and> \<not> endsWith (extractSenderEmail ?f) (''@'' @ ''Boss@Example.com'')" by blast
  ultimately show ?thesis using variants vip upper by blast
qed

text \<open>
  Claim C8 fails on the code. \<^verbatim>\<open>_extractSenderEmail\<close> lower-cases the sender so that the
  lists match whatever the letter case is, but the configured entries are compared as
  they are typed: with the VIP sender \<^verbatim>\<open>Boss@Example.com\<close> configured, a thread from that
  address is not VIP, and with the protected domain \<^verbatim>\<open>Partner.Example.com\<close> configured, a
  thread from that domain is not protected, while the lower-case forms of the same
  entries match.
\<close>

theorem configured_entry_case_matters:
  "toLowerCase ''Boss@Example.com'' = ''boss@example.com''
   \<and> isVIP (CONFIG lowerCaseProps) (extractSenderEmail ''The Boss <Boss@Example.com>'')
   \<and> \<not> isVIP (CONFIG mixedCaseProps) (extractSenderEmail ''The Boss <Boss@Example.com>'')
   \<and> toLowerCase ''Partner.Example.com'' = ''partner.example.com''
   \<and> isProtected (CONFIG lowerCaseProps) (extractSenderEmail ''Ann <Ann@Partner.Example.com>'')
   \<and> \<not> isProtected (CONFIG mixedCaseProps) (extractSenderEmail ''Ann <Ann@Partner.Example.com>'')"
  by (simp add: isVIP_def isProtected_def CONFIG_lowerCaseProps CONFIG_mixedCaseProps string_defs)

subsection \<open>One label for every contribution\<close>

text \<open>The two loops of the scorer add the contributions, one after the other.\<close>

lemma keywordLoop_fold:
  "keywordLoop content ks st = foldl contribute st (keywordContributions content ks)"
proof (induction ks arbitrary: st)
  case Nil
  then show ?case by (simp add: keywordContributions_def)
next
  case (Cons k ks)
  obtain keyword profile where k: "k = (keyword, profile)" by (cases k)
  obtain scoreMap totalWeight where st: "st = (scoreMap, totalWeight)" by (cases st)
  show ?case
    using Cons.IH by (simp add: k st keywordContributions_def contribute_def)
qed

lemma senderStep_fold:
  "senderStep sp sender = foldl contribute ([], 0) (senderContribution sp sender)"
  by (simp add: senderStep_def senderContribution_def contribute_def split: option.splits)

lemma scorer_state:
  assumes "senderProfiles i = Some sp"
  shows "keywordLoop (toLowerCase (subject @ '' '' @ snippet))
           (objectEntries (case keywordProfiles i of None \<Rightarrow> [] | Some kp \<Rightarrow> kp))
           (senderStep sp sender)
         = foldl contribute ([], 0) (contributions i sender subject snippet)"
  using assms by (simp add: keywordLoop_fold senderStep_fold contributions_def)

lemma contributions_labelled:
  "c \<in> set (contributions i sender subject snippet) \<Longrightarrow> fst c \<noteq> []"
  by (auto simp: contributions_def senderContribution_def keywordContributions_def
           split: option.splits if_splits)

lemma proto_not_inherited_free:
  "lbl \<notin> set objectPrototypeKeys \<Longrightarrow> lbl \<noteq> ''__proto__''"
  by (auto simp: objectPrototypeKeys_def)

lemma addScore_first:
  assumes "lbl \<notin> set objectPrototypeKeys"
  shows "addScore [] lbl w = [(lbl, Number w)]"
  using assms proto_not_inherited_free [OF assms]
  by (simp add: addScore_def readScore_def orZero_def plusNumber_def writeScore_def)

lemma addScore_again:
  assumes "lbl \<notin> set objectPrototypeKeys"
  shows "addScore [(lbl, Number t)] lbl w = [(lbl, Number (t + w))]"
  using proto_not_inherited_free [OF assms]
  by (simp add: addScore_def readScore_def orZero_def plusNumber_def writeScore_def)

lemma fold_single_label:
  assumes "lbl \<notin> set objectPrototypeKeys" and "\<forall>c \<in> set cs. fst c = lbl"
  shows "foldl contribute ([(lbl, Number t)], t) cs
         = ([(lbl, Number (t + sum_list (map snd cs)))], t + sum_list (map snd cs))"
  using assms(2)
proof (induction cs arbitrary: t)
  case Nil
  then show ?case by simp
next
  case (Cons c cs)
  then have c: "fst c = lbl" and rest: "\<forall>c \<in> set cs. fst c = lbl" by simp_all
  have "contribute ([(lbl, Number t)], t) c = ([(lbl, Number (t + snd c))], t + snd c)"
    using c by (simp add: contribute_def addScore_again [OF assms(1)])
  with Cons.IH [OF rest, of "t + snd c"] show ?case by (simp add: add.assoc)
qed

lemma fold_single_label_start:
  assumes "lbl \<notin> set objectPrototypeKeys" and "\<forall>c \<in> set cs. fst c = lbl" and "cs \<noteq> []"
  shows "foldl contribute ([], 0) cs
         = ([(lbl, Number (sum_list (map snd cs)))], sum_list (map snd cs))"
proof (cases cs)
  case Nil
  with assms(3) show ?thesis by simp
next
  case (Cons c cs')
  with assms(2) have c: "fst c = lbl" and rest: "\<forall>c \<in> set cs'. fst c = lbl" by simp_all
  have "contribute ([], 0) c = ([(lbl, Number (snd c))], snd c)"
    using c by (simp add: contribute_def addScore_first [OF assms(1)])
  with fold_single_label [OF assms(1) rest, of "snd c"] Cons show ?thesis by simp
qed

lemma objectEntries_single: "objectEntries [e] = [e]"
  by (simp add: objectEntries_def)

lemma fold_total:
  "snd (foldl contribute st cs) = snd st + sum_list (map snd cs)"
  by (induction cs arbitrary: st) (simp_all add: contribute_def add.assoc)

lemma addScore_inherited:
  assumes "lbl \<in> set objectPrototypeKeys" and "m = [] \<or> m = [(lbl, Text)]"
  shows "addScore m lbl w = [] \<or> addScore m lbl w = [(lbl, Text)]"
  using assms
  by (auto simp: addScore_def readScore_def orZero_def plusNumber_def writeScore_def)

lemma fold_inherited_label:
  assumes "lbl \<in> set objectPrototypeKeys" and "\<forall>c \<in> set cs. fst c = lbl"
    and "fst st = [] \<or> fst st = [(lbl, Text)]"
  shows "fst (foldl contribute st cs) = [] \<or> fst (foldl contribute st cs) = [(lbl, Text)]"
  using assms(2,3)
proof (induction cs arbitrary: st)
  case Nil
  then show ?case by simp
next
  case (Cons c cs)
  then have c: "fst c = lbl" and rest: "\<forall>c \<in> set cs. fst c = lbl" by simp_all
  have "fst (contribute st c) = [] \<or> fst (contribute st c) = [(lbl, Text)]"
    using addScore_inherited [OF assms(1) Cons.prems(2), of "snd c"] c
    by (simp add: contribute_def)
  from Cons.IH [OF rest this] show ?case by simp
qed

lemma single_label_scoreMap:
  assumes "\<forall>c \<in> set cs. fst c = lbl" and "cs \<noteq> []"
  shows "fst (foldl contribute ([], 0) cs) = []
       \<or> fst (foldl contribute ([], 0) cs) = [(lbl, Text)]
       \<or> fst (foldl contribute ([], 0) cs) = [(lbl, Number (sum_list (map snd cs)))]"
proof (cases "lbl \<in> set objectPrototypeKeys")
  case True
  from fold_inherited_label [OF True assms(1), of "([], 0)"] show ?thesis by auto
next
  case False
  from fold_single_label_start [OF False assms(1) assms(2)] show ?thesis by simp
qed

lemma bestLoop_nothing_positive:
  assumes "m = [] \<or> m = [(lbl, Text)] \<or> m = [(lbl, Number t)]" and "t \<le> 0"
  shows "bestLoop (objectEntries m) (None, 0) = (None, 0)"
  using assms by (auto simp: objectEntries_single) (simp add: objectEntries_def)

text \<open>
  Claim C10, as amended. Suppose every contribution of a call goes to one label. When the
  contributions sum to more than 0 and the label is not the name of a property that the
  empty score map inherits, \<^verbatim>\<open>bestScore\<close> equals \<^verbatim>\<open>totalWeight\<close>, the scorer returns that
  label with confidence exactly 1, however small the weights are, and for a sender that
  is neither VIP nor protected \<^verbatim>\<open>classifyThread\<close> returns that result: it passes the gate
  at \<^verbatim>\<open>MEDIUM_CONFIDENCE\<close>. When the contributions sum to 0 or less, whatever the label
  is, no label is selected and the scorer returns keep, no label, confidence 0, reason
  "No pattern match".
\<close>

theorem single_label_confidence:
  assumes "senderProfiles i \<noteq> None"
    and "cs = contributions i sender subject snippet"
    and "cs \<noteq> []" and "\<forall>c \<in> set cs. fst c = lbl"
  shows "(lbl \<notin> set objectPrototypeKeys \<and> 0 < sum_list (map snd cs) \<longrightarrow>
            (\<exists>sp scoreMap totalWeight.
                senderProfiles i = Some sp
              \<and> keywordLoop (toLowerCase (subject @ '' '' @ snippet))
                    (objectEntries (case keywordProfiles i of None \<Rightarrow> [] | Some kp \<Rightarrow> kp))
                    (senderStep sp sender) = (scoreMap, totalWeight)
              \<and> totalWeight = sum_list (map snd cs)
              \<and> bestLoop (objectEntries scoreMap) (None, 0) = (Some lbl, totalWeight))
          \<and> classifyWithIntelligence i sender subject snippet
               = Inr \<lparr> action = ''label'', label = Some lbl, confidence = 1,
                       reason = ''Historical pattern match'' \<rparr>
          \<and> (sender = extractSenderEmail (getFrom thr)
                \<and> subject = getFirstMessageSubject thr
                \<and> snippet = substring0 (getPlainBody thr) 500
                \<and> \<not> isVIP (CONFIG p) sender \<and> \<not> isProtected (CONFIG p) sender
              \<longrightarrow> classifyThread (CONFIG p) (Some i) thr
                    = Inr \<lparr> action = ''label'', label = Some lbl, confidence = 1,
                            reason = ''Historical pattern match'' \<rparr>))
       \<and> (sum_list (map snd cs) \<le> 0 \<longrightarrow>
            (\<exists>sp scoreMap totalWeight.
                senderProfiles i = Some sp
              \<and> keywordLoop (toLowerCase (subject @ '' '' @ snippet))
                    (objectEntries (case keywordProfiles i of None \<Rightarrow> [] | Some kp \<Rightarrow> kp))
                    (senderStep sp sender) = (scoreMap, totalWeight)
              \<and> totalWeight = sum_list (map snd cs)
              \<and> bestLoop (objectEntries scoreMap) (None, 0) = (None, 0))
          \<and> classifyWithIntelligence i sender subject snippet
               = Inr \<lparr> action = ''keep'', label = None, confidence = 0,
                       reason = ''No pattern match'' \<rparr>)"
proof (intro conjI impI)
  let ?T = "sum_list (map snd cs)"
  let ?d = "\<lparr> action = ''label'', label = Some lbl, confidence = 1,
               reason = ''Historical pattern match'' \<rparr>"
  let ?loop = "keywordLoop (toLowerCase (subject @ '' '' @ snippet))
                (objectEntries (case keywordProfiles i of None \<Rightarrow> [] | Some kp \<Rightarrow> kp))"
  from assms(1) obtain sp where sp: "senderProfiles i = Some sp" by auto
  have fold: "?loop (senderStep sp sender) = foldl contribute ([], 0) cs"
    using scorer_state [OF sp, of subject snippet sender] assms(2) by simp
  {
    assume h: "lbl \<notin> set objectPrototypeKeys \<and> 0 < ?T"
    then have own: "lbl \<notin> set objectPrototypeKeys" and pos: "0 < ?T" by simp_all
    have state: "?loop (senderStep sp sender) = ([(lbl, Number ?T)], ?T)"
      using fold fold_single_label_start [OF own assms(4) assms(3)] by simp
    have best: "bestLoop (objectEntries [(lbl, Number ?T)]) (None, 0) = (Some lbl, ?T)"
      using pos by (simp add: objectEntries_single)
    from assms(3) obtain c where "c \<in> set cs" by (cases cs) auto
    with assms(2,4) contributions_labelled [of c i sender subject snippet]
    have nonempty: "lbl \<noteq> []" by auto
    have result: "classifyWithIntelligence i sender subject snippet = Inr ?d"
      unfolding classifyWithIntelligence_def sp option.case Let_def state prod.case best
      using pos nonempty by simp
    from sp state best
    show "\<exists>sp scoreMap totalWeight.
                senderProfiles i = Some sp
              \<and> ?loop (senderStep sp sender) = (scoreMap, totalWeight)
              \<and> totalWeight = ?T
              \<and> bestLoop (objectEntries scoreMap) (None, 0) = (Some lbl, totalWeight)"
      by blast
    from result show "classifyWithIntelligence i sender subject snippet = Inr ?d" .
    {
      assume g: "sender = extractSenderEmail (getFrom thr)
          \<and> subject = getFirstMessageSubject thr
          \<and> snippet = substring0 (getPlainBody thr) 500
          \<and> \<not> isVIP (CONFIG p) sender \<and> \<not> isProtected (CONFIG p) sender"
      then have e: "extractSenderEmail (getFrom thr) = sender"
        "getFirstMessageSubject thr = subject" "substring0 (getPlainBody thr) 500 = snippet"
        and nv: "\<not> isVIP (CONFIG p) sender" and np: "\<not> isProtected (CONFIG p) sender"
        by blast+
      show "classifyThread (CONFIG p) (Some i) thr = Inr ?d"
        unfolding classifyThread_def Let_def e
        using nv np result by (simp add: MEDIUM_CONFIDENCE_CONFIG)
    }
  }
  {
    assume le: "?T \<le> 0"
    obtain scoreMap totalWeight where st: "foldl contribute ([], 0) cs = (scoreMap, totalWeight)"
      by (cases "foldl contribute ([], 0) cs")
    from fold_total [of "([], 0)" cs] st have total: "totalWeight = ?T" by simp
    from single_label_scoreMap [OF assms(4) assms(3)] st
    have shape: "scoreMap = [] \<or> scoreMap = [(lbl, Text)] \<or> scoreMap = [(lbl, Number ?T)]"
      by simp
    from bestLoop_nothing_positive [OF shape le]
    have best: "bestLoop (objectEntries scoreMap) (None, 0) = (None, 0)" .
    have state: "?loop (senderStep sp sender) = (scoreMap, totalWeight)"
      using fold st by simp
    from sp state total best
    show "\<exists>sp scoreMap totalWeight.
                senderProfiles i = Some sp
              \<and> ?loop (senderStep sp sender) = (scoreMap, totalWeight)
              \<and> totalWeight = ?T
              \<and> bestLoop (objectEntries scoreMap) (None, 0) = (None, 0)"
      by blast
    show "classifyWithIntelligence i sender subject snippet
               = Inr \<lparr> action = ''keep'', label = None, confidence = 0,
                       reason = ''No pattern match'' \<rparr>"
      unfolding classifyWithIntelligence_def sp option.case Let_def state prod.case best
      by (simp add: noPatternMatch_def)
  }
qed

theorem single_label_confidence_witness:
  "senderProfiles smallWeights \<noteq> None
   \<and> contributions smallWeights ''shop@example.com'' ''Sale'' ''A big discount.''
        = [(''Promotions'', 3 / 1000), (''Promotions'', 3 / 1000)]
   \<and> ''Promotions'' \<notin> set objectPrototypeKeys
   \<and> (0::real) < sum_list (map snd [(''Promotions'', 3 / 1000), (''Promotions'', 3 / 1000 :: real)])
   \<and> classifyWithIntelligence smallWeights ''shop@example.com'' ''Sale'' ''A big discount.''
        = Inr \<lparr> action = ''label'', label = Some ''Promotions'', confidence = 1,
                reason = ''Historical pattern match'' \<rparr>
   \<and> classifyThread (CONFIG noProps) (Some smallWeights)
        \<lparr> getFrom = ''Shop <shop@example.com>'', getFirstMessageSubject = ''Sale'',
          getPlainBody = ''A big discount.'', isStarred = False \<rparr>
      = Inr \<lparr> action = ''label'', label = Some ''Promotions'', confidence = 1,
              reason = ''Historical pattern match'' \<rparr>
   \<and> senderProfiles zeroWeight \<noteq> None
   \<and> contributions zeroWeight ''shop@example.com'' ''Sale'' ''Everything must go.''
        = [(''Promotions'', 0)]
   \<and> sum_list (map snd [(''Promotions'', 0 :: real)]) \<le> 0
   \<and> classifyWithIntelligence zeroWeight ''shop@example.com'' ''Sale'' ''Everything must go.''
        = Inr \<lparr> action = ''keep'', label = None, confidence = 0,
                reason = ''No pattern match'' \<rparr>"
proof -
  let ?thr = "\<lparr> getFrom = ''Shop <shop@example.com>'', getFirstMessageSubject = ''Sale'',
                 getPlainBody = ''A big discount.'', isStarred = False \<rparr>"
  let ?cs = "[(''Promotions'', 3 / 1000), (''Promotions'', 3 / 1000 :: real)]"
  let ?zs = "[(''Promotions'', 0 :: real)]"
  have sp: "senderProfiles smallWeights \<noteq> None"
    by (simp add: smallWeights_def)
  have cs: "?cs = contributions smallWeights ''shop@example.com'' ''Sale'' ''A big discount.''"
    by (simp add: contributions_def senderContribution_def keywordContributions_def
          smallWeights_def objectEntries_def arrayIndex_def digitValue_def string_defs)
  have ne: "?cs \<noteq> []" by simp
  have one: "\<forall>c \<in> set ?cs. fst c = ''Promotions''" by simp
  have own: "''Promotions'' \<notin> set objectPrototypeKeys"
    by (simp add: objectPrototypeKeys_def)
  have pos: "0 < sum_list (map snd ?cs)" by simp
  have sender: "''shop@example.com'' = extractSenderEmail (getFrom ?thr)"
    by (simp add: string_defs)
  have snippet: "''A big discount.'' = substring0 (getPlainBody ?thr) 500"
    by (simp add: string_defs)
  have nv: "\<not> isVIP (CONFIG noProps) ''shop@example.com''"
    by (simp add: isVIP_def CONFIG_noProps string_defs)
  have np: "\<not> isProtected (CONFIG noProps) ''shop@example.com''"
    by (simp add: isProtected_def CONFIG_noProps string_defs)
  note t = single_label_confidence [OF sp cs ne one, where thr = ?thr and p = noProps,
      THEN conjunct1, rule_format, OF conjI [OF own pos]]
  from t have scorer: "classifyWithIntelligence smallWeights ''shop@example.com'' ''Sale''
        ''A big discount.''
        = Inr \<lparr> action = ''label'', label = Some ''Promotions'', confidence = 1,
                reason = ''Historical pattern match'' \<rparr>"
    by blast
  from t sender snippet nv np
  have gate: "classifyThread (CONFIG noProps) (Some smallWeights) ?thr
      = Inr \<lparr> action = ''label'', label = Some ''Promotions'', confidence = 1,
              reason = ''Historical pattern match'' \<rparr>"
    by simp
  have zsp: "senderProfiles zeroWeight \<noteq> None"
    by (simp add: zeroWeight_def)
  have zs: "?zs = contributions zeroWeight ''shop@example.com'' ''Sale'' ''Everything must go.''"
    by (simp add: contributions_def senderContribution_def keywordContributions_def
          zeroWeight_def objectEntries_def arrayIndex_def digitValue_def string_defs)
  have zne: "?zs \<noteq> []" by simp
  have zone: "\<forall>c \<in> set ?zs. fst c = ''Promotions''" by simp
  have zle: "sum_list (map snd ?zs) \<le> 0" by simp
  note z = single_label_confidence [OF zsp zs zne zone, THEN conjunct2, rule_format, OF zle]
  from z have none: "classifyWithIntelligence zeroWeight ''shop@example.com'' ''Sale''
        ''Everything must go.''
        = Inr \<lparr> action = ''keep'', label = None, confidence = 0,
                reason = ''No pattern match'' \<rparr>"
    by blast
  from sp cs [symmetric] own pos scorer gate zsp zs [symmetric] zle none
  show ?thesis by (intro conjI)
qed

text \<open>
  Claim C10 as stated fails in two cases. A matched keyword of weight 0 gives its label a
  contribution of 0: \<^verbatim>\<open>bestScore\<close> and \<^verbatim>\<open>totalWeight\<close> are both 0, no label is selected and
  the result is "No pattern match" with confidence 0. A label named \<^verbatim>\<open>constructor\<close> gets a
  string for its score, which is never greater than \<^verbatim>\<open>bestScore\<close>, with the same result.
\<close>

theorem single_label_without_confidence:
  "contributions zeroWeight ''shop@example.com'' ''Sale'' ''Everything must go.''
        = [(''Promotions'', 0)]
   \<and> classifyWithIntelligence zeroWeight ''shop@example.com'' ''Sale'' ''Everything must go.''
        = Inr \<lparr> action = ''keep'', label = None, confidence = 0, reason = ''No pattern match'' \<rparr>
   \<and> contributions inheritedLabel ''shop@example.com'' ''Sale'' ''Everything must go.''
        = [(''constructor'', 3 / 20)]
   \<and> classifyWithIntelligence inheritedLabel ''shop@example.com'' ''Sale'' ''Everything must go.''
        = Inr \<lparr> action = ''keep'', label = None, confidence = 0, reason = ''No pattern match'' \<rparr>"
  by (simp add: contributions_def senderContribution_def keywordContributions_def
        zeroWeight_def inheritedLabel_def scorer_defs string_defs)

subsection \<open>Further properties of the scorer and of the loop\<close>

lemma bestLoop_keeps_or_picks:
  "bestLoop es (bl, bs) = (bl', bs') \<Longrightarrow>
     (bl' = bl \<and> bs' = bs) \<or> (\<exists>l. bl' = Some l \<and> (l, Number bs') \<in> set es)"
proof (induction es arbitrary: bl bs)
  case Nil
  then show ?case by simp
next
  case (Cons e es)
  obtain lbl score where e: "e = (lbl, score)" by (cases e)
  show ?case
  proof (cases score)
    case (Number s)
    show ?thesis
    proof (cases "s > bs")
      case True
      with Cons.prems e Number have "bestLoop es (Some lbl, s) = (bl', bs')" by simp
      from Cons.IH [OF this] e Number show ?thesis by auto
    next
      case False
      with Cons.prems e Number have "bestLoop es (bl, bs) = (bl', bs')" by simp
      from Cons.IH [OF this] show ?thesis by auto
    qed
  next
    case Text
    with Cons.prems e have "bestLoop es (bl, bs) = (bl', bs')" by simp
    from Cons.IH [OF this] show ?thesis by auto
  qed
qed

lemma bestLoop_upper_bound:
  "bestLoop es (bl, bs) = (bl', bs') \<Longrightarrow>
     bs \<le> bs' \<and> (\<forall>l s. (l, Number s) \<in> set es \<longrightarrow> s \<le> bs')"
proof (induction es arbitrary: bl bs)
  case Nil
  then show ?case by simp
next
  case (Cons e es)
  obtain lbl score where e: "e = (lbl, score)" by (cases e)
  show ?case
  proof (cases score)
    case (Number s)
    show ?thesis
    proof (cases "s > bs")
      case True
      with Cons.prems e Number have "bestLoop es (Some lbl, s) = (bl', bs')" by simp
      from Cons.IH [OF this] True e Number show ?thesis by auto
    next
      case False
      with Cons.prems e Number have "bestLoop es (bl, bs) = (bl', bs')" by simp
      from Cons.IH [OF this] False e Number show ?thesis by auto
    qed
  next
    case Text
    with Cons.prems e have "bestLoop es (bl, bs) = (bl', bs')" by simp
    from Cons.IH [OF this] e Text show ?thesis by auto
  qed
qed

text \<open>
  The label the scorer selects has a positive score that no other numeric score of the
  map exceeds.
\<close>

theorem best_label_is_maximal:
  assumes "bestLoop es (None, 0) = (Some lbl, bestScore)"
  shows "(lbl, Number bestScore) \<in> set es \<and> 0 < bestScore
       \<and> (\<forall>l s. (l, Number s) \<in> set es \<longrightarrow> s \<le> bestScore)"
proof -
  from bestLoop_keeps_or_picks [OF assms] have mem: "(lbl, Number bestScore) \<in> set es" by auto
  from bestLoop_upper_bound [OF assms]
  have ub: "\<forall>l s. (l, Number s) \<in> set es \<longrightarrow> s \<le> bestScore" and nn: "0 \<le> bestScore" by auto
  have "bestScore \<noteq> 0"
  proof
    assume z: "bestScore = 0"
    have "\<And>bl. bestLoop es (bl, 0) = (bl', bs') \<Longrightarrow> bs' = 0 \<Longrightarrow> bl' = bl" for bl' bs'
    proof (induction es)
      case Nil
      then show ?case by simp
    next
      case (Cons e es)
      obtain l score where e: "e = (l, score)" by (cases e)
      show ?case
      proof (cases score)
        case (Number s)
        show ?thesis
        proof (cases "s > 0")
          case True
          with Cons.prems e Number have b: "bestLoop es (Some l, s) = (bl', bs')" by simp
          from bestLoop_upper_bound [OF b] True Cons.prems(2) show ?thesis by simp
        next
          case False
          with Cons.prems e Number have "bestLoop es (bl, 0) = (bl', bs')" by simp
          then show ?thesis using Cons.prems(2) by (rule Cons.IH)
        qed
      next
        case Text
        with Cons.prems e have "bestLoop es (bl, 0) = (bl', bs')" by simp
        then show ?thesis using Cons.prems(2) by (rule Cons.IH)
      qed
    qed
    from this [OF assms z] show False by simp
  qed
  with nn have "0 < bestScore" by simp
  with mem ub show ?thesis by simp
qed

theorem best_label_is_maximal_witness:
  "bestLoop [(''Finance'', Number (3 / 20)), (''Promotions'', Number (3 / 10)),
             (''Orders'', Number (3 / 10))] (None, 0) = (Some ''Promotions'', 3 / 10)
   \<and> (''Promotions'', Number (3 / 10)) \<in> set [(''Finance'', Number (3 / 20)),
         (''Promotions'', Number (3 / 10)), (''Orders'', Number (3 / 10))]
   \<and> (0::real) < 3 / 10"
proof -
  let ?es = "[(''Finance'', Number (3 / 20)), (''Promotions'', Number (3 / 10)),
              (''Orders'', Number (3 / 10))]"
  have b: "bestLoop ?es (None, 0) = (Some ''Promotions'', 3 / 10)" by simp
  from best_label_is_maximal [OF b] have "(''Promotions'', Number (3 / 10)) \<in> set ?es
      \<and> (0::real) < 3 / 10" by simp
  with b show ?thesis by simp
qed

text \<open>
  In production mode a thread is archived exactly when its sender does not end with
  \<^verbatim>\<open>.edu\<close> and the decision either has the action archive, or has the action label, a
  label, and a confidence of at least \<^verbatim>\<open>HIGH_CONFIDENCE\<close>.
\<close>

theorem archive_policy:
  "MoveToArchive \<in> set (productionSwitch cfg thr d) \<longleftrightarrow>
     \<not> endsWith (extractSenderEmail (getFrom thr)) ''.edu''
     \<and> (action d = ''archive''
        \<or> (action d = ''label'' \<and> (\<exists>l. label d = Some l \<and> l \<noteq> [])
            \<and> confidence d \<ge> HIGH_CONFIDENCE cfg))"
proof -
  consider (star) "action d = ''star''" | (lab) "action d = ''label''"
    | (arch) "action d = ''archive''"
    | (other) "action d \<noteq> ''star''" "action d \<noteq> ''label''" "action d \<noteq> ''archive''"
    by blast
  then show ?thesis
  proof cases
    case star
    then show ?thesis by (simp add: productionSwitch_def)
  next
    case lab
    then show ?thesis by (cases "label d") (auto simp: productionSwitch_def)
  next
    case arch
    then show ?thesis by (simp add: productionSwitch_def)
  next
    case other
    then show ?thesis by (simp add: productionSwitch_def)
  qed
qed

theorem archive_policy_witness:
  "MoveToArchive \<in> set (productionSwitch (CONFIG noProps)
        \<lparr> getFrom = ''News <news@shop.example.com>'', getFirstMessageSubject = ''Weekly newsletter'',
          getPlainBody = ''Click here to unsubscribe.'', isStarred = False \<rparr>
        \<lparr> action = ''label'', label = Some ''Newsletters'', confidence = 9 / 10,
          reason = ''Newsletter detected'' \<rparr>)
   \<and> MoveToArchive \<notin> set (productionSwitch (CONFIG noProps)
        \<lparr> getFrom = ''News <news@college.edu>'', getFirstMessageSubject = ''Weekly newsletter'',
          getPlainBody = ''Click here to unsubscribe.'', isStarred = False \<rparr>
        \<lparr> action = ''label'', label = Some ''Newsletters'', confidence = 9 / 10,
          reason = ''Newsletter detected'' \<rparr>)"
  by (simp add: archive_policy HIGH_CONFIDENCE_CONFIG string_defs)

text \<open>
  In a dry run the loop still labels every classified thread \<^verbatim>\<open>_Triage/Processed\<close>, and
  does nothing else to it.
\<close>

theorem dry_run_marks_processed:
  assumes "DRY_RUN cfg" and "classifyThread cfg intel thr = Inr d"
  shows "processThread cfg intel thr = [AddLabel ''_Triage/Processed'']"
  using assms by (simp add: processThread_def applyDecision_def)

theorem dry_run_marks_processed_witness:
  "DRY_RUN (CONFIG dryRunProps)
   \<and> classifyThread (CONFIG dryRunProps) None
        \<lparr> getFrom = ''Pat <pat@example.com>'', getFirstMessageSubject = ''Lunch on Friday'',
          getPlainBody = ''See you there.'', isStarred = False \<rparr>
      = Inr \<lparr> action = ''keep'', label = None, confidence = 3 / 10,
              reason = ''No specific rule matched'' \<rparr>
   \<and> processThread (CONFIG dryRunProps) None
        \<lparr> getFrom = ''Pat <pat@example.com>'', getFirstMessageSubject = ''Lunch on Friday'',
          getPlainBody = ''See you there.'', isStarred = False \<rparr>
      = [AddLabel ''_Triage/Processed'']"
proof -
  let ?thr = "\<lparr> getFrom = ''Pat <pat@example.com>'', getFirstMessageSubject = ''Lunch on Friday'',
                 getPlainBody = ''See you there.'', isStarred = False \<rparr>"
  have dry: "DRY_RUN (CONFIG dryRunProps)"
    by (simp add: dryRunProps_def props_defs)
  have ev: "classifyThread (CONFIG dryRunProps) None ?thr
      = Inr \<lparr> action = ''keep'', label = None, confidence = 3 / 10,
              reason = ''No specific rule matched'' \<rparr>"
    by (simp add: classifyThread_def isVIP_def isProtected_def dryRunProps_def props_defs
          string_defs rule_defs)
  from dry_run_marks_processed [OF dry ev] dry ev show ?thesis by blast
qed

text \<open>An instance of the characterisation of the inputs on which \<^verbatim>\<open>classifyThread\<close> raises.\<close>

theorem raises_exactly_without_senderProfiles_witness:
  "\<not> isVIP (CONFIG noProps) (extractSenderEmail ''Pat <pat@example.com>'')
   \<and> \<not> isProtected (CONFIG noProps) (extractSenderEmail ''Pat <pat@example.com>'')
   \<and> classifyThread (CONFIG noProps) (Some \<lparr> senderProfiles = None, keywordProfiles = None \<rparr>)
        \<lparr> getFrom = ''Pat <pat@example.com>'', getFirstMessageSubject = ''Lunch on Friday'',
          getPlainBody = ''See you there.'', isStarred = False \<rparr>
      = Inl TypeError"
proof -
  let ?thr = "\<lparr> getFrom = ''Pat <pat@example.com>'', getFirstMessageSubject = ''Lunch on Friday'',
                 getPlainBody = ''See you there.'', isStarred = False \<rparr>"
  have nv: "\<not> isVIP (CONFIG noProps) (extractSenderEmail ''Pat <pat@example.com>'')"
    by (simp add: isVIP_def CONFIG_noProps string_defs)
  have np: "\<not> isProtected (CONFIG noProps) (extractSenderEmail ''Pat <pat@example.com>'')"
    by (simp add: isProtected_def CONFIG_noProps string_defs)
  from nv np
  have "classifyThread (CONFIG noProps) (Some \<lparr> senderProfiles = None, keywordProfiles = None \<rparr>)
          ?thr = Inl TypeError"
    by (simp add: classifyThread_throws_iff)
  with nv np show ?thesis by blast
qed

end
